theory Spec2Isabelle
  imports Main "HOL-Library.Sublist" "HOL-Library.Product_Lexorder"
begin

section \<open>Data model of \<^verbatim>\<open>main.go\<close>\<close>

text \<open>
  A Go \<^verbatim>\<open>error\<close> is modelled by its message. A function returning \<^verbatim>\<open>(T, error)\<close>
  returns \<open>error + T\<close>, with \<open>Inl\<close> for a non-nil error.
\<close>

type_synonym error = string

text \<open>\<^verbatim>\<open>type Event struct\<close>: a row of the table \<^verbatim>\<open>event_backup\<close>. \<^verbatim>\<open>CreatedAt\<close> is an
  \<^verbatim>\<open>int64\<close> and \<^verbatim>\<open>Kind\<close> an \<^verbatim>\<open>int\<close>; the program only copies, compares and prints them,
  so they are integers here.\<close>

record Event =
  ID :: string
  Pubkey :: string
  CreatedAt :: int
  Kind :: int
  EventData :: string

text \<open>\<^verbatim>\<open>type UserProfile struct\<close>.\<close>

record UserProfile =
  Name :: string
  About :: string
  Picture :: string
  Nip05 :: string

text \<open>The zero value \<^verbatim>\<open>UserProfile{}\<close>.\<close>

definition empty_profile :: UserProfile where
  "empty_profile = \<lparr>Name = [], About = [], Picture = [], Nip05 = []\<rparr>"

section \<open>Identifier decoding\<close>

text \<open>What \<^verbatim>\<open>nip19.Decode\<close> returns as its \<^verbatim>\<open>any\<close> value: a string (for \<^verbatim>\<open>npub\<close>,
  \<^verbatim>\<open>nsec\<close>, \<^verbatim>\<open>note\<close>) or one of the library's pointer structs.\<close>

datatype nip19_value = StringValue string | PointerValue

text \<open>\<^verbatim>\<open>strings.HasPrefix\<close> is \<^const>\<open>prefix\<close>; \<^verbatim>\<open>strings.TrimPrefix\<close> removes the prefix
  when it is there and returns the string unchanged otherwise.\<close>

definition TrimPrefix :: "string \<Rightarrow> string \<Rightarrow> string" where
  "TrimPrefix s p = (if prefix p s then drop (length p) s else s)"

text \<open>\<^verbatim>\<open>npubToHex\<close>. The bech32 decoder \<^verbatim>\<open>nip19.Decode\<close> belongs to a library and is a
  parameter: it returns an error, or the human-readable prefix and the value.\<close>

definition npubToHex ::
  "(string \<Rightarrow> error + string \<times> nip19_value) \<Rightarrow> string \<Rightarrow> error + string" where
  "npubToHex Decode npub =
     (if \<not> prefix ''npub1'' npub
      then Inl ''invalid npub format: does not start with npub1''
      else (case Decode npub of
        Inl err \<Rightarrow> Inl (''invalid npub: '' @ err)
      | Inr (pre, val) \<Rightarrow>
          (if pre \<noteq> ''npub'' then Inl (''not an npub: prefix is '' @ pre)
           else (case val of
             StringValue hexPubkey \<Rightarrow> Inr hexPubkey
           | PointerValue \<Rightarrow> Inl ''decoded npub value is not a string''))))"

section \<open>The archive query\<close>

text \<open>
  The database is reached through \<^verbatim>\<open>database/sql\<close>. Its state is the content of the
  table \<^verbatim>\<open>event_backup\<close> and the failure, if any, that the storage layer produces
  during this request:
  \<^item> \<open>QueryFault\<close>: \<^verbatim>\<open>db.Query\<close> returns an error;
  \<^item> \<open>ScanFault n\<close>: \<^verbatim>\<open>rows.Scan\<close> returns an error on row \<open>n\<close> of the result;
  \<^item> \<open>NextFault n\<close>: the result stream breaks after \<open>n\<close> rows: \<^verbatim>\<open>rows.Next\<close> returns
    false there and \<^verbatim>\<open>rows.Err\<close> reports the error.
\<close>

datatype db_fault =
  NoFault | QueryFault error | ScanFault nat error | NextFault nat error

record database =
  event_backup :: "Event list"
  fault :: db_fault

text \<open>A \<^verbatim>\<open>*sql.Rows\<close>: for each row that \<^verbatim>\<open>Next\<close> delivers, the outcome of \<^verbatim>\<open>Scan\<close> on
  it, and what \<^verbatim>\<open>Err\<close> reports once \<^verbatim>\<open>Next\<close> has returned false.\<close>

record Rows =
  scans :: "(error + Event) list"
  rows_Err :: "error option"

text \<open>The sort key of \<^verbatim>\<open>ORDER BY event_kind ASC, created_at DESC\<close>, compared
  lexicographically.\<close>

definition order_key :: "Event \<Rightarrow> int \<times> int" where
  "order_key e = (Kind e, - CreatedAt e)"

text \<open>The rows selected by
  \<^verbatim>\<open>SELECT id, pubkey, created_at, event_kind, event_data FROM event_backup
  WHERE pubkey = $1 ORDER BY event_kind ASC, created_at DESC\<close>
  with \<open>$1\<close> bound to the argument. SQL leaves the order of rows with equal keys
  open; here they keep the table's order.\<close>

definition select_by_pubkey :: "Event list \<Rightarrow> string \<Rightarrow> Event list" where
  "select_by_pubkey table arg = sort_key order_key (filter (\<lambda>row. Pubkey row = arg) table)"

text \<open>\<^verbatim>\<open>db.Query(query, pubkey)\<close> on a database with the given fault.\<close>

definition db_Query :: "database \<Rightarrow> string \<Rightarrow> error + Rows" where
  "db_Query db arg =
     (let result = select_by_pubkey (event_backup db) arg in
      case fault db of
        NoFault \<Rightarrow> Inr \<lparr>scans = map Inr result, rows_Err = None\<rparr>
      | QueryFault err \<Rightarrow> Inl err
      | ScanFault n err \<Rightarrow>
          Inr \<lparr>scans = (if n < length result then (map Inr result)[n := Inl err]
                        else map Inr result),
               rows_Err = None\<rparr>
      | NextFault n err \<Rightarrow> Inr \<lparr>scans = map Inr (take n result), rows_Err = Some err\<rparr>)"

text \<open>The loop \<^verbatim>\<open>for rows.Next() { ... rows.Scan(...) ... events = append(events, event) }\<close>
  of \<^verbatim>\<open>queryEventsByPubkey\<close>, with the slice \<^verbatim>\<open>events\<close> as accumulator.\<close>

fun scan_rows :: "(error + Event) list \<Rightarrow> Event list \<Rightarrow> error + Event list" where
  "scan_rows [] events = Inr events"
| "scan_rows (Inl err # rest) events = Inl err"
| "scan_rows (Inr event # rest) events = scan_rows rest (events @ [event])"

text \<open>\<^verbatim>\<open>queryEventsByPubkey\<close>. After the loop the function returns \<^verbatim>\<open>events, nil\<close>; it
  does not read \<^verbatim>\<open>rows.Err()\<close>.\<close>

definition queryEventsByPubkey :: "database \<Rightarrow> string \<Rightarrow> error + Event list" where
  "queryEventsByPubkey db pubkey =
     (case db_Query db pubkey of
        Inl err \<Rightarrow> Inl err
      | Inr rows \<Rightarrow> scan_rows (scans rows) [])"

text \<open>The order the query asks for: category ascending, and within one category the
  creation timestamp descending.\<close>

definition kind_then_newest :: "Event \<Rightarrow> Event \<Rightarrow> bool" where
  "kind_then_newest a b \<longleftrightarrow> Kind a < Kind b \<or> (Kind a = Kind b \<and> CreatedAt b \<le> CreatedAt a)"

section \<open>The profile fetch\<close>

text \<open>\<^verbatim>\<open>nostr.Filter\<close>, with the three fields the program sets.\<close>

record Filter =
  Authors :: "string list"
  Kinds :: "int list"
  Limit :: int

text \<open>\<^verbatim>\<open>nostr.Event\<close> as received from a relay; the program reads \<^verbatim>\<open>Kind\<close> and
  \<^verbatim>\<open>Content\<close>.\<close>

record nostr_Event =
  nostr_Kind :: int
  nostr_Content :: string

text \<open>
  A connected \<^verbatim>\<open>*nostr.Relay\<close>: \<^verbatim>\<open>Subscribe\<close> fails, or gives the events that arrive on
  the channel \<^verbatim>\<open>evs.Events\<close> before it is closed. The subscription's context has a
  timeout of five seconds, so the channel delivers finitely many events; a relay that
  does not answer delivers none.
\<close>

record Relay =
  Subscribe :: "Filter list \<Rightarrow> error + nostr_Event list"

text \<open>
  What the handler does to the outside world, in the order it does it: the query sent
  to the database with its bound parameter, the relay connections, subscriptions and
  closings, and the lines passed to \<^verbatim>\<open>log.Printf\<close>.
\<close>

datatype io_event =
  IoQuery string string
| IoConnect string
| IoSubscribe string "Filter list"
| IoClose string
| IoLog string

text \<open>
  The environment of one request: the library functions the program calls and the
  state of the services it talks to.
  \<^item> \<open>nip19_Decode\<close>: \<^verbatim>\<open>nip19.Decode\<close>;
  \<^item> \<open>db\<close>: the database behind the \<^verbatim>\<open>*sql.DB\<close> handle;
  \<^item> \<open>RelayConnect\<close>: \<^verbatim>\<open>nostr.RelayConnect\<close> on a relay address;
  \<^item> \<open>json_Unmarshal\<close>: \<^verbatim>\<open>json.Unmarshal\<close> of an event's content into a \<^verbatim>\<open>UserProfile\<close>;
  \<^item> \<open>time_Format\<close>: \<^verbatim>\<open>time.Unix(sec, 0).Format("2006-01-02 15:04:05")\<close> in the server's
    local time zone;
  \<^item> \<open>url_sanitize\<close>: the filter and normalizer that \<^verbatim>\<open>html/template\<close> applies to a value
    in a URL attribute before it escapes it for the attribute.
\<close>

record env =
  nip19_Decode :: "string \<Rightarrow> error + string \<times> nip19_value"
  db :: database
  RelayConnect :: "string \<Rightarrow> error + Relay"
  json_Unmarshal :: "string \<Rightarrow> error + UserProfile"
  time_Format :: "int \<Rightarrow> string"
  url_sanitize :: "string \<Rightarrow> string"

text \<open>The fixed list \<^verbatim>\<open>relays\<close> of \<^verbatim>\<open>fetchProfileFromRelays\<close>.\<close>

definition relays :: "string list" where
  "relays = [''wss://relay.damus.io'', ''wss://yabu.me'', ''wss://nostr.compile-error.net'']"

text \<open>The filter built at the start of \<^verbatim>\<open>fetchProfileFromRelays\<close>.\<close>

definition profile_filter :: "string \<Rightarrow> Filter" where
  "profile_filter pubkey = \<lparr>Authors = [pubkey], Kinds = [0], Limit = 1\<rparr>"

text \<open>
  The inner loop \<^verbatim>\<open>for ev := range evs.Events\<close>. It returns the lines logged and the
  profile with which the function returns from inside the loop, if it does. An event
  of another kind is skipped; an event of kind 0 whose content does not parse is
  logged and the loop \<^verbatim>\<open>continue\<close>s with the next event of the same channel.
\<close>

fun read_events ::
  "(string \<Rightarrow> error + UserProfile) \<Rightarrow> nostr_Event list \<Rightarrow> io_event list \<times> UserProfile option"
  where
  "read_events unmarshal [] = ([], None)"
| "read_events unmarshal (ev # evs) =
     (if nostr_Kind ev = 0 then
        (case unmarshal (nostr_Content ev) of
           Inl err \<Rightarrow>
             (let (logs, res) = read_events unmarshal evs
              in (IoLog (''Failed to unmarshal profile from event: '' @ err) # logs, res))
         | Inr profile \<Rightarrow> ([], Some profile))
      else read_events unmarshal evs)"

text \<open>
  The outer loop \<^verbatim>\<open>for _, relayURL := range relays\<close>, followed by the final
  \<^verbatim>\<open>return &UserProfile{}, nil\<close>. The result is the trace of what was done and the
  pair \<^verbatim>\<open>(*UserProfile, error)\<close>.
\<close>

fun try_relays ::
  "env \<Rightarrow> Filter \<Rightarrow> string list \<Rightarrow> io_event list \<times> (error + UserProfile)" where
  "try_relays e flt [] = ([], Inr empty_profile)"
| "try_relays e flt (relayURL # rest) =
     (case RelayConnect e relayURL of
        Inl err \<Rightarrow>
          (let (tr, res) = try_relays e flt rest
           in ([IoConnect relayURL,
                IoLog (''Failed to connect to relay '' @ relayURL @ '': '' @ err)] @ tr, res))
      | Inr relay \<Rightarrow>
          (case Subscribe relay [flt] of
             Inl err \<Rightarrow>
               (let (tr, res) = try_relays e flt rest
                in ([IoConnect relayURL, IoSubscribe relayURL [flt], IoClose relayURL,
                     IoLog (''Failed to subscribe to relay '' @ relayURL @ '': '' @ err)] @ tr,
                    res))
           | Inr evs \<Rightarrow>
               (case read_events (json_Unmarshal e) evs of
                  (logs, Some profile) \<Rightarrow>
                    ([IoConnect relayURL, IoSubscribe relayURL [flt]] @ logs @ [IoClose relayURL],
                     Inr profile)
                | (logs, None) \<Rightarrow>
                    (let (tr, res) = try_relays e flt rest
                     in ([IoConnect relayURL, IoSubscribe relayURL [flt]] @ logs
                           @ [IoClose relayURL] @ tr, res)))))"

text \<open>\<^verbatim>\<open>fetchProfileFromRelays\<close>.\<close>

definition fetchProfileFromRelays ::
  "env \<Rightarrow> string \<Rightarrow> io_event list \<times> (error + UserProfile)" where
  "fetchProfileFromRelays e pubkey = try_relays e (profile_filter pubkey) relays"

text \<open>
  What one event offers as a profile, and what one relay offers to a subscription with
  the filter: the first event of kind 0 whose content parses. An address that cannot
  be connected to, a subscription that fails and a channel without such an event offer
  nothing. These two definitions describe the environment; the loops above do not use
  them.
\<close>

definition parsable_profile ::
  "(string \<Rightarrow> error + UserProfile) \<Rightarrow> nostr_Event \<Rightarrow> UserProfile option" where
  "parsable_profile unmarshal ev =
     (if nostr_Kind ev = 0 then
        (case unmarshal (nostr_Content ev) of Inl err \<Rightarrow> None | Inr profile \<Rightarrow> Some profile)
      else None)"

definition relay_yields :: "env \<Rightarrow> Filter \<Rightarrow> string \<Rightarrow> UserProfile option" where
  "relay_yields e flt relayURL =
     (case RelayConnect e relayURL of
        Inl err \<Rightarrow> None
      | Inr relay \<Rightarrow>
          (case Subscribe relay [flt] of
             Inl err \<Rightarrow> None
           | Inr evs \<Rightarrow>
               (case List.map_filter (parsable_profile (json_Unmarshal e)) evs of
                  [] \<Rightarrow> None
                | profile # _ \<Rightarrow> Some profile)))"

text \<open>The relay addresses that a trace connects to, in order, and the filters it
  subscribes with.\<close>

fun contacted :: "io_event list \<Rightarrow> string list" where
  "contacted [] = []"
| "contacted (IoConnect relayURL # tr) = relayURL # contacted tr"
| "contacted (ev # tr) = contacted tr"

fun subscribed :: "io_event list \<Rightarrow> Filter list list" where
  "subscribed [] = []"
| "subscribed (IoSubscribe relayURL flts # tr) = flts # subscribed tr"
| "subscribed (ev # tr) = subscribed tr"

section \<open>The results page\<close>

text \<open>
  The page is produced by \<^verbatim>\<open>html/template\<close>, which rewrites every action of the
  template so that its value passes through the escaper of the context it stands in.
  For a value that is a plain string, the escapers of text, of the content of
  \<^verbatim>\<open><title>\<close> and of a quoted attribute value all apply the library's
  \<^verbatim>\<open>htmlReplacementTable\<close>: the characters NUL, \<^verbatim>\<open>"\<close>, \<^verbatim>\<open>&\<close>, \<^verbatim>\<open>'\<close>, \<^verbatim>\<open>+\<close>, \<^verbatim>\<open><\<close> and \<^verbatim>\<open>>\<close>
  are replaced, every other byte is copied.
\<close>

definition html_replacement :: "char \<Rightarrow> string" where
  "html_replacement c =
     (if c = CHR 0x00 then [CHR 0xEF, CHR 0xBF, CHR 0xBD]
      else if c = CHR 0x22 then ''&#34;''
      else if c = CHR ''&'' then ''&amp;''
      else if c = CHR 0x27 then ''&#39;''
      else if c = CHR ''+'' then ''&#43;''
      else if c = CHR ''<'' then ''&lt;''
      else if c = CHR ''>'' then ''&gt;''
      else [c])"

definition htmlReplacer :: "string \<Rightarrow> string" where
  "htmlReplacer s = concat (map html_replacement s)"

definition htmlEscaper :: "string \<Rightarrow> string" where
  "htmlEscaper s = htmlReplacer s"

definition rcdataEscaper :: "string \<Rightarrow> string" where
  "rcdataEscaper s = htmlReplacer s"

definition attrEscaper :: "string \<Rightarrow> string" where
  "attrEscaper s = htmlReplacer s"

text \<open>The decimal form in which the template prints an integer (\<^verbatim>\<open>fmt.Sprint\<close>).\<close>

function Itoa_nat :: "nat \<Rightarrow> string" where
  "Itoa_nat n =
     (if n < 10 then [''0123456789'' ! n]
      else Itoa_nat (n div 10) @ [''0123456789'' ! (n mod 10)])"
  by pat_completeness auto
termination
  by (relation "measure (\<lambda>n. n)") auto

definition Itoa :: "int \<Rightarrow> string" where
  "Itoa i = (if i < 0 then CHR ''-'' # Itoa_nat (nat (- i)) else Itoa_nat (nat i))"

text \<open>\<^verbatim>\<open>GetFormattedDate\<close>, with the formatting of the local time taken from the
  environment.\<close>

definition GetFormattedDate :: "(int \<Rightarrow> string) \<Rightarrow> Event \<Rightarrow> string" where
  "GetFormattedDate fmt e = fmt (CreatedAt e)"

text \<open>
  The text of the template of \<^verbatim>\<open>npubHandler\<close>, cut at its actions: \<open>tmpl_n\<close> is piece
  number \<open>n\<close> when the template is split at every \<^verbatim>\<open>{{...}}\<close>, the actions being the
  pieces with odd numbers. Pieces 10 and 12 are empty.
\<close>

definition tmpl_0 :: string where
  \<open>tmpl_0 =
     ''\<newline><!DOCTYPE html>\<newline><html lang="en">\<newline><head>\<newline>    <meta charset="UTF-8">\<newline>  '' @
     ''  <meta name="viewport" content="width=device-width, initial-scale=1.0'' @
     ''">\<newline>    <title>Events for ''\<close>

definition tmpl_2 :: string where
  \<open>tmpl_2 =
     ''</title>\<newline>    <link rel="stylesheet" href="/static/style.css">\<newline>    <scr'' @
     ''ipt src="https://cdn.jsdelivr.net/npm/sweetalert2@11"></script>\<newline>    <s'' @
     ''cript src="/static/script.js"></script>\<newline></head>\<newline><body>\<newline>    <div class='' @
     ''"container">\<newline>        <div class="back-link">\<newline>            <a href="/">'' @
     [CHR 0xE2, CHR 0x80, CHR 0x9A, CHR 0xC3, CHR 0x9C, CHR 0xC3, CHR 0xAA] @
     '' Back to Home</a>\<newline>        </div>\<newline>\<newline>        <div class="profile-header" '' @
     ''style="display: flex; align-items: center; margin-bottom: 30px; paddin'' @
     ''g-bottom: 20px; border-bottom: 1px solid #eee;">\<newline>            ''\<close>

definition tmpl_4 :: string where
  \<open>tmpl_4 =
     ''\<newline>            <img src="''\<close>

definition tmpl_6 :: string where
  \<open>tmpl_6 =
     ''" alt="Profile Picture" class="profile-pic" style="width: 60px; height'' @
     '': 60px; border-radius: 50%; object-fit: cover; margin-right: 15px;">\<newline> '' @
     ''           ''\<close>

definition tmpl_8 :: string where
  \<open>tmpl_8 =
     ''\<newline>            <div>\<newline>                <h1>''\<close>

definition tmpl_14 :: string where
  \<open>tmpl_14 =
     ''Nostr User''\<close>

definition tmpl_16 :: string where
  \<open>tmpl_16 =
     ''</h1>\<newline>                <p><strong>npub:</strong> ''\<close>

definition tmpl_18 :: string where
  \<open>tmpl_18 =
     ''</p>\<newline>                <p><strong>Hex Pubkey:</strong> ''\<close>

definition tmpl_20 :: string where
  \<open>tmpl_20 =
     ''</p>\<newline>                ''\<close>

definition tmpl_22 :: string where
  \<open>tmpl_22 =
     ''<p><strong>Verification:</strong> ''\<close>

definition tmpl_24 :: string where
  \<open>tmpl_24 =
     ''</p>''\<close>

definition tmpl_26 :: string where
  \<open>tmpl_26 =
     ''\<newline>                ''\<close>

definition tmpl_28 :: string where
  \<open>tmpl_28 =
     ''<p><strong>About:</strong> ''\<close>

definition tmpl_30 :: string where
  \<open>tmpl_30 =
     ''</p>''\<close>

definition tmpl_32 :: string where
  \<open>tmpl_32 =
     ''\<newline>                <p><strong>Total Events Found:</strong> ''\<close>

definition tmpl_34 :: string where
  \<open>tmpl_34 =
     ''</p>\<newline>            </div>\<newline>        </div>\<newline>\<newline>        <div class="events-con'' @
     ''tainer">\<newline>            ''\<close>

definition tmpl_36 :: string where
  \<open>tmpl_36 =
     ''\<newline>            ''\<close>

definition tmpl_38 :: string where
  \<open>tmpl_38 =
     ''\<newline>                ''\<close>

definition tmpl_40 :: string where
  \<open>tmpl_40 =
     ''\<newline>                    ''\<close>

definition tmpl_42 :: string where
  \<open>tmpl_42 =
     ''</div>''\<close>

definition tmpl_44 :: string where
  \<open>tmpl_44 =
     ''\<newline>                    <div class="kind-group">\<newline>                        '' @
     ''<h2 class="kind-header">Kind ''\<close>

definition tmpl_46 :: string where
  \<open>tmpl_46 =
     ''</h2>\<newline>                    ''\<close>

definition tmpl_48 :: string where
  \<open>tmpl_48 =
     ''\<newline>                ''\<close>

definition tmpl_50 :: string where
  \<open>tmpl_50 =
     ''\<newline>                <div class="event">\<newline>                    <div class="e'' @
     ''vent-header">\<newline>                        <div class="event-header-left">\<newline>'' @
     ''                            <span class="event-timestamp">''\<close>

definition tmpl_52 :: string where
  \<open>tmpl_52 =
     ''</span>\<newline>                        </div>\<newline>                        <div cl'' @
     ''ass="event-actions">\<newline>                            ''\<close>

definition tmpl_54 :: string where
  \<open>tmpl_54 =
     ''<button class="restore-btn" onclick="showRestoreConfirmation(this)">Restore</button>''\<close>

definition tmpl_56 :: string where
  \<open>tmpl_56 =
     ''\<newline>                            <button class="copy-btn" onclick="copyEve'' @
     ''ntData(this)">Copy</button>\<newline>                        </div>\<newline>           '' @
     ''         </div>\<newline>                    <detail>\<newline>                        <'' @
     ''div class="event-content" data-content="''\<close>

definition tmpl_58 :: string where
  \<open>tmpl_58 =
     ''"><pre style="white-space: pre-wrap; word-break: break-all;">''\<close>

definition tmpl_60 :: string where
  \<open>tmpl_60 =
     ''</pre></div>\<newline>                    </detail>\<newline>                    <div cl'' @
     ''ass="event-id">''\<close>

definition tmpl_62 :: string where
  \<open>tmpl_62 =
     ''</div>\<newline>                </div>\<newline>            ''\<close>

definition tmpl_64 :: string where
  \<open>tmpl_64 =
     ''\<newline>                <p>No events found for this pubkey.</p>\<newline>            ''\<close>

definition tmpl_66 :: string where
  \<open>tmpl_66 =
     ''\<newline>            ''\<close>

definition tmpl_68 :: string where
  \<open>tmpl_68 =
     ''</div>''\<close>

definition tmpl_70 :: string where
  \<open>tmpl_70 =
     ''\<newline>        </div>\<newline>        <footer>\<newline>            <p>Nostr Event Restore Se'' @
     ''rvice &copy; 2025</p>\<newline>        </footer>\<newline>    </div>\<newline></body>\<newline></html>\<newline>''\<close>

text \<open>The value the template is executed with.\<close>

record page_data =
  Npub :: string
  HexPubkey :: string
  Events :: "Event list"
  Profile :: UserProfile

text \<open>
  The part of the \<^verbatim>\<open>range\<close> body guarded by \<^verbatim>\<open>{{if ne .Kind $currentKind}}\<close>: it closes
  the previous group unless \<^verbatim>\<open>$currentKind\<close> is still \<open>-1\<close>, and opens a group with its
  heading.
\<close>

definition kind_header :: "int \<Rightarrow> Event \<Rightarrow> string" where
  "kind_header currentKind e =
     (if Kind e \<noteq> currentKind then
        tmpl_40 @ (if currentKind \<noteq> - 1 then tmpl_42 else []) @ tmpl_44
          @ htmlEscaper (Itoa (Kind e)) @ tmpl_46 @ tmpl_48
      else [])"

text \<open>One pass through the body of \<^verbatim>\<open>{{range .Events}}\<close>, for the event \<open>e\<close> and the
  value of \<^verbatim>\<open>$currentKind\<close> before it.\<close>

definition render_event :: "(int \<Rightarrow> string) \<Rightarrow> int \<Rightarrow> Event \<Rightarrow> string" where
  "render_event fmt currentKind e =
     tmpl_38 @ kind_header currentKind e
       @ tmpl_50 @ htmlEscaper (GetFormattedDate fmt e)
       @ tmpl_52 @ (if Kind e = 3 then tmpl_54 else [])
       @ tmpl_56 @ attrEscaper (EventData e)
       @ tmpl_58 @ htmlEscaper (EventData e)
       @ tmpl_60 @ htmlEscaper (ID e)
       @ tmpl_62"

text \<open>The passes of the \<^verbatim>\<open>range\<close> over a non-empty list; the assignment
  \<^verbatim>\<open>{{$currentKind = .Kind}}\<close> is made inside the guarded part.\<close>

fun render_range :: "(int \<Rightarrow> string) \<Rightarrow> int \<Rightarrow> Event list \<Rightarrow> string" where
  "render_range fmt currentKind [] = []"
| "render_range fmt currentKind (e # es) =
     render_event fmt currentKind e
       @ render_range fmt (if Kind e \<noteq> currentKind then Kind e else currentKind) es"

text \<open>\<^verbatim>\<open>{{range .Events}} ... {{else}} ... {{end}}\<close>, entered with \<^verbatim>\<open>$currentKind\<close> set to
  \<open>-1\<close>.\<close>

definition render_events :: "(int \<Rightarrow> string) \<Rightarrow> Event list \<Rightarrow> string" where
  "render_events fmt es = (if es = [] then tmpl_64 else render_range fmt (- 1) es)"

text \<open>The first part of the template, up to the line with the number of events: the
  head of the document and the profile. A string is true in \<^verbatim>\<open>{{if ...}}\<close> when it is
  not empty.\<close>

definition render_profile_header :: "(string \<Rightarrow> string) \<Rightarrow> page_data \<Rightarrow> string" where
  "render_profile_header urlf d =
     tmpl_0 @ rcdataEscaper (Name (Profile d))
       @ tmpl_2
       @ (if Picture (Profile d) \<noteq> [] then
            tmpl_4 @ attrEscaper (urlf (Picture (Profile d))) @ tmpl_6
          else [])
       @ tmpl_8
       @ (if Name (Profile d) \<noteq> [] then htmlEscaper (Name (Profile d)) else tmpl_14)
       @ tmpl_16 @ htmlEscaper (Npub d)
       @ tmpl_18 @ htmlEscaper (HexPubkey d)
       @ tmpl_20
       @ (if Nip05 (Profile d) \<noteq> [] then tmpl_22 @ htmlEscaper (Nip05 (Profile d)) @ tmpl_24
          else [])
       @ tmpl_26
       @ (if About (Profile d) \<noteq> [] then tmpl_28 @ htmlEscaper (About (Profile d)) @ tmpl_30
          else [])"

text \<open>The execution of the whole template.\<close>

definition render_page :: "(string \<Rightarrow> string) \<Rightarrow> (int \<Rightarrow> string) \<Rightarrow> page_data \<Rightarrow> string" where
  "render_page urlf fmt d =
     render_profile_header urlf d
       @ tmpl_32 @ htmlEscaper (Itoa (int (length (Events d))))
       @ tmpl_34 @ tmpl_36
       @ render_events fmt (Events d)
       @ tmpl_66
       @ (if 0 < length (Events d) then tmpl_68 else [])
       @ tmpl_70"

section \<open>The handler\<close>

text \<open>The part of the request the handler reads: \<^verbatim>\<open>r.URL.Path\<close> and the parsed query
  \<^verbatim>\<open>r.URL.Query()\<close>, a map from a key to its values.\<close>

record Request =
  URL_Path :: string
  URL_Query :: "string \<rightharpoonup> string list"

text \<open>\<^verbatim>\<open>url.Values.Get\<close>: the first value of the key, or the empty string.\<close>

definition Values_Get :: "(string \<rightharpoonup> string list) \<Rightarrow> string \<Rightarrow> string" where
  "Values_Get v key = (case v key of None \<Rightarrow> [] | Some [] \<Rightarrow> [] | Some (x # _) \<Rightarrow> x)"

record Response =
  status :: nat
  body :: string

text \<open>\<^verbatim>\<open>http.Error\<close>: the status code and the message followed by a newline.\<close>

definition http_Error :: "string \<Rightarrow> nat \<Rightarrow> Response" where
  "http_Error msg code = \<lparr>status = code, body = msg @ [CHR 0x0A]\<rparr>"

text \<open>The identifier of the request, lines 190 to 195 of \<^verbatim>\<open>npubHandler\<close>.\<close>

definition request_npub :: "Request \<Rightarrow> string" where
  "request_npub r =
     (let npub = TrimPrefix (URL_Path r) ''/npub/''
      in if npub = [] then Values_Get (URL_Query r) ''q'' else npub)"

text \<open>The text of the query that \<^verbatim>\<open>queryEventsByPubkey\<close> sends.\<close>

definition query :: string where
  "query = ''SELECT id, pubkey, created_at, event_kind, event_data FROM event_backup WHERE pubkey = $1 ORDER BY event_kind ASC, created_at DESC''"

text \<open>
  \<^verbatim>\<open>npubHandler\<close>: the trace of what it does and the response it writes. The template
  is a constant that parses, and executing it on this data meets no error of its own,
  so the two branches that answer a parse or execution error are not entered; a
  successful \<^verbatim>\<open>Execute\<close> writes the page with status 200.
\<close>

definition npubHandler :: "env \<Rightarrow> Request \<Rightarrow> io_event list \<times> Response" where
  "npubHandler e r =
     (let npub = request_npub r in
      case npubToHex (nip19_Decode e) npub of
        Inl err \<Rightarrow> ([], http_Error ''Invalid npub format'' 400)
      | Inr hexPubkey \<Rightarrow>
          (case queryEventsByPubkey (db e) hexPubkey of
             Inl err \<Rightarrow> ([IoQuery query hexPubkey], http_Error (''Database error: '' @ err) 500)
           | Inr events \<Rightarrow>
               (let (tr, res) = fetchProfileFromRelays e hexPubkey;
                    (logs, profile) =
                      (case res of
                         Inl err \<Rightarrow>
                           ([IoLog (''Error fetching profile for '' @ hexPubkey @ '': '' @ err)],
                            empty_profile)
                       | Inr p \<Rightarrow> ([], p))
                in (IoQuery query hexPubkey # tr @ logs,
                    \<lparr>status = 200,
                     body = render_page (url_sanitize e) (time_Format e)
                       \<lparr>Npub = npub, HexPubkey = hexPubkey, Events = events,
                        Profile = profile\<rparr>\<rparr>))))"

section \<open>Concrete environments\<close>

text \<open>
  Environments and requests on which the theorems below are instantiated. The decoder
  accepts one identifier, the parser of profiles accepts two contents, the time
  formatter and the URL filter are fixed; each environment then sets the database and
  the relays.
\<close>

definition alice_npub :: string where
  "alice_npub = ''npub1alice''"

definition alice_hex :: string where
  "alice_hex = ''a11ce0''"

definition sample_Decode :: "string \<Rightarrow> error + string \<times> nip19_value" where
  "sample_Decode s =
     (if s = alice_npub then Inr (''npub'', StringValue alice_hex)
      else Inl ''checksum failed'')"

definition alice_profile :: UserProfile where
  "alice_profile = \<lparr>Name = ''alice'', About = ''hi'', Picture = [], Nip05 = []\<rparr>"

definition bob_profile :: UserProfile where
  "bob_profile = \<lparr>Name = ''bob'', About = [], Picture = [], Nip05 = []\<rparr>"

definition sample_Unmarshal :: "string \<Rightarrow> error + UserProfile" where
  "sample_Unmarshal s =
     (if s = ''{\"name\":\"alice\",\"about\":\"hi\"}'' then Inr alice_profile
      else if s = ''{\"name\":\"bob\"}'' then Inr bob_profile
      else Inl ''invalid character'')"

definition sample_Format :: "int \<Rightarrow> string" where
  "sample_Format sec = ''2025-01-01 00:00:00''"

definition good_event :: nostr_Event where
  "good_event = \<lparr>nostr_Kind = 0, nostr_Content = ''{\"name\":\"alice\",\"about\":\"hi\"}''\<rparr>"

definition bob_event :: nostr_Event where
  "bob_event = \<lparr>nostr_Kind = 0, nostr_Content = ''{\"name\":\"bob\"}''\<rparr>"


definition note_event :: nostr_Event where
  "note_event = \<lparr>nostr_Kind = 1, nostr_Content = ''hello''\<rparr>"

text \<open>Relays: one that cannot be reached by any address; one where the first address
  is unreachable and the second delivers a profile; one where the first address
  delivers unparsable content and then a profile; one where the first address accepts
  the subscription and delivers nothing.\<close>

definition net_down :: "string \<Rightarrow> error + Relay" where
  "net_down relayURL = Inl ''connection refused''"

definition net_second :: "string \<Rightarrow> error + Relay" where
  "net_second relayURL =
     (if relayURL = ''wss://relay.damus.io'' then Inl ''connection refused''
      else if relayURL = ''wss://yabu.me''
        then Inr \<lparr>Subscribe = (\<lambda>flts. Inr [note_event, good_event])\<rparr>
      else Inr \<lparr>Subscribe = (\<lambda>flts. Inr [bob_event])\<rparr>)"




text \<open>The table: three events of one author, and one of another.\<close>

definition row_note_old :: Event where
  "row_note_old =
     \<lparr>ID = ''e1'', Pubkey = alice_hex, CreatedAt = 100, Kind = 1, EventData = ''{\"kind\":1}''\<rparr>"

definition row_contacts :: Event where
  "row_contacts =
     \<lparr>ID = ''e2'', Pubkey = alice_hex, CreatedAt = 150, Kind = 3,
      EventData = ''{\"kind\":3,\"content\":\"<b>&\"}''\<rparr>"

definition row_note_new :: Event where
  "row_note_new =
     \<lparr>ID = ''e3'', Pubkey = alice_hex, CreatedAt = 200, Kind = 1, EventData = ''{\"kind\":1}''\<rparr>"

definition row_other :: Event where
  "row_other =
     \<lparr>ID = ''e4'', Pubkey = ''b0b'', CreatedAt = 300, Kind = 0, EventData = ''{}''\<rparr>"

definition sample_table :: "Event list" where
  "sample_table = [row_note_old, row_contacts, row_other, row_note_new]"

definition sample_env :: "database \<Rightarrow> (string \<Rightarrow> error + Relay) \<Rightarrow> env" where
  "sample_env dbase net =
     \<lparr>nip19_Decode = sample_Decode, db = dbase, RelayConnect = net,
      json_Unmarshal = sample_Unmarshal, time_Format = sample_Format,
      url_sanitize = (\<lambda>s. s)\<rparr>"

definition db_ok :: database where
  "db_ok = \<lparr>event_backup = sample_table, fault = NoFault\<rparr>"

definition db_broken_stream :: database where
  "db_broken_stream = \<lparr>event_backup = sample_table, fault = NextFault 1 ''unexpected EOF''\<rparr>"

definition db_other_only :: database where
  "db_other_only = \<lparr>event_backup = [row_other], fault = NoFault\<rparr>"

definition req_path :: Request where
  "req_path = \<lparr>URL_Path = ''/npub/npub1alice'', URL_Query = Map.empty\<rparr>"

definition req_query :: Request where
  "req_query = \<lparr>URL_Path = ''/npub/'', URL_Query = [''q'' \<mapsto> [''npub1alice'']]\<rparr>"

definition req_both :: Request where
  "req_both = \<lparr>URL_Path = ''/npub/npub1alice'', URL_Query = [''q'' \<mapsto> [''npub1bob'']]\<rparr>"

definition req_bad :: Request where
  "req_bad = \<lparr>URL_Path = ''/npub/nsec1alice'', URL_Query = Map.empty\<rparr>"

section \<open>Vocabulary of the properties\<close>

text \<open>The characters with which text could open or close a tag or leave a quoted
  attribute value, and the markup characters of a page in their order.\<close>

definition is_markup :: "char \<Rightarrow> bool" where
  "is_markup c \<longleftrightarrow> c = CHR ''<'' \<or> c = CHR ''>'' \<or> c = CHR 0x22 \<or> c = CHR 0x27"

definition markup_of :: "string \<Rightarrow> string" where
  "markup_of s = filter is_markup s"

text \<open>Two values for the template have the same shape when they differ at most in
  their texts and timestamps: the same profile fields are empty, and the events have
  the same categories in the same order.\<close>

definition same_shape :: "page_data \<Rightarrow> page_data \<Rightarrow> bool" where
  "same_shape d d' \<longleftrightarrow>
     (Name (Profile d) = [] \<longleftrightarrow> Name (Profile d') = []) \<and>
     (About (Profile d) = [] \<longleftrightarrow> About (Profile d') = []) \<and>
     (Picture (Profile d) = [] \<longleftrightarrow> Picture (Profile d') = []) \<and>
     (Nip05 (Profile d) = [] \<longleftrightarrow> Nip05 (Profile d') = []) \<and>
     map Kind (Events d) = map Kind (Events d')"

text \<open>The two buttons of an event: the one that calls \<^verbatim>\<open>showRestoreConfirmation\<close> of
  \<^verbatim>\<open>script.js\<close> is piece 54 of the template, the one that calls \<^verbatim>\<open>copyEventData\<close> lies in
  piece 56.\<close>

definition restore_button :: string where
  "restore_button = tmpl_54"

definition copy_button :: string where
  \<open>copy_button = ''<button class="copy-btn" onclick="copyEventData(this)">Copy</button>''\<close>

text \<open>The lines of the page that show the number of events and the absence of
  events.\<close>

definition total_events_line :: "nat \<Rightarrow> string" where
  "total_events_line n =
     ''<p><strong>Total Events Found:</strong> '' @ Itoa (int n) @ ''</p>''"

definition no_events_line :: string where
  "no_events_line = ''<p>No events found for this pubkey.</p>''"

text \<open>Pages for the examples: a profile and events whose texts carry markup, and a
  page of the same shape with harmless texts.\<close>

definition hostile_event :: Event where
  \<open>hostile_event =
     \<lparr>ID = ''<i>'', Pubkey = alice_hex, CreatedAt = 7, Kind = 3,
      EventData = ''"><script>alert(1)</script>''\<rparr>\<close>

definition hostile_page :: page_data where
  \<open>hostile_page =
     \<lparr>Npub = ''npub1<b>'', HexPubkey = alice_hex, Events = [hostile_event, row_note_old],
      Profile = \<lparr>Name = ''</title><script>'', About = ''<img src=x>'',
                 Picture = ''" onerror="x'', Nip05 = []\<rparr>\<rparr>\<close>

definition plain_page :: page_data where
  "plain_page =
     \<lparr>Npub = alice_npub, HexPubkey = alice_hex, Events = [row_contacts, row_note_new],
      Profile = \<lparr>Name = ''alice'', About = ''hi'', Picture = ''https://example.com/a.png'',
                 Nip05 = []\<rparr>\<rparr>"

text \<open>The beginning of the opening tag of the restore button.\<close>

definition restore_button_start :: string where
  \<open>restore_button_start = ''<button class="restore-btn"''\<close>

text \<open>The number of positions of a text at which a given string begins.\<close>

fun occurrences :: "string \<Rightarrow> string \<Rightarrow> nat" where
  "occurrences n [] = (if n = [] then 1 else 0)"
| "occurrences n (x # xs) = (if prefix n (x # xs) then 1 else 0) + occurrences n xs"

section \<open>Properties of the archive query\<close>

lemma scan_rows_Inr_all:
  "scan_rows (map Inr rs) acc = Inr (acc @ rs)"
  by (induction rs arbitrary: acc) simp_all

lemma scan_rows_result:
  "scan_rows ss acc = Inr events \<Longrightarrow> \<exists>rs. ss = map Inr rs \<and> events = acc @ rs"
proof (induction ss acc rule: scan_rows.induct)
  case (1 events)
  then show ?case by simp
next
  case (2 err rest events)
  then show ?case by simp
next
  case (3 event rest acc)
  from 3 obtain rs where "rest = map Inr rs" "events = (acc @ [event]) @ rs"
    by auto
  then have "Inr event # rest = map Inr (event # rs) \<and> events = acc @ (event # rs)"
    by simp
  then show ?case by (intro exI [of _ "event # rs"])
qed

lemma map_Inr_update:
  "map Inr rs = (map Inr xs)[n := Inl err] \<Longrightarrow> n < length xs \<Longrightarrow> False"
proof -
  assume eq: "map Inr rs = (map Inr xs)[n := Inl err]" and n: "n < length xs"
  from eq have len: "length rs = length xs"
    by (metis length_list_update length_map)
  from eq have "(map Inr rs) ! n = ((map Inr xs)[n := Inl err]) ! n"
    by simp
  with n len show False by simp
qed

lemma query_returns_prefix:
  assumes "queryEventsByPubkey dbase pubkey = Inr events"
  shows "\<exists>n. events = take n (select_by_pubkey (event_backup dbase) pubkey)"
proof -
  let ?res = "select_by_pubkey (event_backup dbase) pubkey"
  show ?thesis
  proof (cases "fault dbase")
    case NoFault
    with assms have "events = ?res"
      by (simp add: queryEventsByPubkey_def db_Query_def scan_rows_Inr_all)
    then have "events = take (length ?res) ?res" by simp
    then show ?thesis by blast
  next
    case (QueryFault err)
    with assms show ?thesis
      by (simp add: queryEventsByPubkey_def db_Query_def)
  next
    case (ScanFault n err)
    show ?thesis
    proof (cases "n < length ?res")
      case True
      with ScanFault assms
      have "scan_rows ((map Inr ?res)[n := Inl err]) [] = Inr events"
        by (simp add: queryEventsByPubkey_def db_Query_def)
      then obtain rs where "(map Inr ?res)[n := Inl err] = map Inr rs"
        using scan_rows_result by blast
      with True map_Inr_update [of rs ?res n err] show ?thesis by simp
    next
      case False
      with ScanFault assms have "events = ?res"
        by (simp add: queryEventsByPubkey_def db_Query_def scan_rows_Inr_all)
      then have "events = take (length ?res) ?res" by simp
      then show ?thesis by blast
    qed
  next
    case (NextFault n err)
    with assms have "scan_rows (map Inr (take n ?res)) [] = Inr events"
      by (simp add: queryEventsByPubkey_def db_Query_def take_map)
    then have "events = take n ?res"
      by (simp only: scan_rows_Inr_all) simp
    then show ?thesis by blast
  qed
qed

lemma select_by_pubkey_author:
  "e \<in> set (select_by_pubkey table arg) \<Longrightarrow> Pubkey e = arg"
  by (simp add: select_by_pubkey_def)

lemma select_by_pubkey_sorted:
  "sorted_wrt kind_then_newest (select_by_pubkey table arg)"
proof -
  have "sorted (map order_key (select_by_pubkey table arg))"
    by (simp add: select_by_pubkey_def)
  then have "sorted_wrt (\<lambda>a b. order_key a \<le> order_key b) (select_by_pubkey table arg)"
    by (simp add: sorted_map)
  moreover have "\<And>a b. order_key a \<le> order_key b \<Longrightarrow> kind_then_newest a b"
    by (auto simp: order_key_def kind_then_newest_def less_eq_prod_def)
  ultimately show ?thesis
    by (rule sorted_wrt_mono_rel [rotated]) blast
qed

lemma sorted_wrt_take_any:
  "sorted_wrt P xs \<Longrightarrow> sorted_wrt P (take n xs)"
  by (metis append_take_drop_id sorted_wrt_append)

text \<open>
  Claim C1. Whatever the table holds and whatever failure the storage layer produces,
  when \<^verbatim>\<open>queryEventsByPubkey\<close> returns a sequence of events, every event in it has the
  requested key in its author column, and the sequence is ordered by category
  ascending and, within equal categories, by creation timestamp descending.
\<close>

theorem C1_query_author_and_order:
  assumes "queryEventsByPubkey dbase pubkey = Inr events"
  shows "(\<forall>e \<in> set events. Pubkey e = pubkey) \<and> sorted_wrt kind_then_newest events"
proof -
  from assms obtain n where ev: "events = take n (select_by_pubkey (event_backup dbase) pubkey)"
    using query_returns_prefix by blast
  have "\<forall>e \<in> set events. Pubkey e = pubkey"
    unfolding ev using select_by_pubkey_author in_set_takeD by fast
  moreover have "sorted_wrt kind_then_newest events"
    unfolding ev by (rule sorted_wrt_take_any) (rule select_by_pubkey_sorted)
  ultimately show ?thesis by blast
qed

theorem C1_witness:
  "queryEventsByPubkey db_ok alice_hex = Inr [row_note_new, row_note_old, row_contacts] \<and>
   Pubkey row_note_new = alice_hex \<and> Pubkey row_note_old = alice_hex \<and>
   Pubkey row_contacts = alice_hex \<and>
   sorted_wrt kind_then_newest [row_note_new, row_note_old, row_contacts]"
proof -
  have h: "queryEventsByPubkey db_ok alice_hex = Inr [row_note_new, row_note_old, row_contacts]"
    by (simp add: queryEventsByPubkey_def db_Query_def db_ok_def
        sample_table_def select_by_pubkey_def order_key_def row_note_old_def row_contacts_def
        row_other_def row_note_new_def alice_hex_def less_eq_prod_def)
  from C1_query_author_and_order [OF h] h show ?thesis by simp
qed

section \<open>Properties of the profile fetch\<close>

lemma contacted_append:
  "contacted (xs @ ys) = contacted xs @ contacted ys"
  by (induction xs rule: contacted.induct) simp_all

lemma subscribed_append:
  "subscribed (xs @ ys) = subscribed xs @ subscribed ys"
  by (induction xs rule: subscribed.induct) simp_all

lemma read_events_result:
  "snd (read_events um evs) =
     (case List.map_filter (parsable_profile um) evs of [] \<Rightarrow> None | p # _ \<Rightarrow> Some p)"
  by (induction evs)
     (auto simp: parsable_profile_def split: sum.splits prod.splits)

lemma read_events_only_logs:
  "contacted (fst (read_events um evs)) = [] \<and> subscribed (fst (read_events um evs)) = []"
  by (induction evs) (auto split: sum.splits prod.splits)

lemma read_events_pair_logs:
  "read_events um evs = (logs, res) \<Longrightarrow> contacted logs = [] \<and> subscribed logs = []"
  using read_events_only_logs [of um evs] by simp

lemma read_events_logs_unparsable:
  "ev \<in> set evs \<Longrightarrow> nostr_Kind ev = 0 \<Longrightarrow> um (nostr_Content ev) = Inl err \<Longrightarrow>
   snd (read_events um evs) = None \<Longrightarrow>
   IoLog (''Failed to unmarshal profile from event: '' @ err) \<in> set (fst (read_events um evs))"
  by (induction evs) (auto split: sum.splits prod.splits if_splits)

lemma try_relays_skip_trace:
  assumes "relay_yields e flt u = None"
  shows "\<exists>tr. try_relays e flt (u # rest) =
           (IoConnect u # tr @ fst (try_relays e flt rest), snd (try_relays e flt rest))
         \<and> contacted tr = []"
proof (cases "RelayConnect e u")
  case (Inl err)
  then have "try_relays e flt (u # rest) =
      (IoConnect u # [IoLog (''Failed to connect to relay '' @ u @ '': '' @ err)]
         @ fst (try_relays e flt rest), snd (try_relays e flt rest))"
    by (simp split: prod.splits)
  then show ?thesis by (intro exI [of _ "[IoLog _]"]) simp
next
  case (Inr relay)
  show ?thesis
  proof (cases "Subscribe relay [flt]")
    case (Inl err)
    with Inr have "try_relays e flt (u # rest) =
        (IoConnect u # [IoSubscribe u [flt], IoClose u,
           IoLog (''Failed to subscribe to relay '' @ u @ '': '' @ err)]
           @ fst (try_relays e flt rest), snd (try_relays e flt rest))"
      by (simp split: prod.splits)
    then show ?thesis by (intro exI [of _ "[IoSubscribe u [flt], IoClose u, IoLog _]"]) simp
  next
    case sub: (Inr evs)
    from assms Inr sub have none: "snd (read_events (json_Unmarshal e) evs) = None"
      by (simp add: relay_yields_def read_events_result)
    have logs: "contacted (fst (read_events (json_Unmarshal e) evs)) = []"
      by (simp add: read_events_only_logs)
    from Inr sub none have "try_relays e flt (u # rest) =
        (IoConnect u # (IoSubscribe u [flt] # fst (read_events (json_Unmarshal e) evs)
           @ [IoClose u]) @ fst (try_relays e flt rest), snd (try_relays e flt rest))"
      by (cases "read_events (json_Unmarshal e) evs") (simp split: prod.splits)
    moreover have "contacted (IoSubscribe u [flt] # fst (read_events (json_Unmarshal e) evs)
           @ [IoClose u]) = []"
      using logs by (simp add: contacted_append)
    ultimately show ?thesis by blast
  qed
qed

lemma try_relays_skip:
  assumes "relay_yields e flt u = None"
  shows "snd (try_relays e flt (u # rest)) = snd (try_relays e flt rest)"
    and "contacted (fst (try_relays e flt (u # rest))) = u # contacted (fst (try_relays e flt rest))"
    and "fst (try_relays e flt rest) \<noteq> [] \<Longrightarrow>
         last (fst (try_relays e flt (u # rest))) = last (fst (try_relays e flt rest))"
proof -
  from try_relays_skip_trace [OF assms, of rest] obtain tr where
    eq: "try_relays e flt (u # rest) =
           (IoConnect u # tr @ fst (try_relays e flt rest), snd (try_relays e flt rest))"
    and tr: "contacted tr = []"
    by blast
  from eq show "snd (try_relays e flt (u # rest)) = snd (try_relays e flt rest)"
    by (simp only: snd_conv)
  from eq tr
  show "contacted (fst (try_relays e flt (u # rest))) = u # contacted (fst (try_relays e flt rest))"
    by (simp only: fst_conv contacted.simps contacted_append) simp
  from eq show "fst (try_relays e flt rest) \<noteq> [] \<Longrightarrow>
      last (fst (try_relays e flt (u # rest))) = last (fst (try_relays e flt rest))"
    by (simp only: fst_conv) simp
qed

lemma try_relays_hit:
  assumes "relay_yields e flt u = Some p"
  shows "snd (try_relays e flt (u # rest)) = Inr p"
    and "contacted (fst (try_relays e flt (u # rest))) = [u]"
    and "last (fst (try_relays e flt (u # rest))) = IoClose u"
proof -
  from assms obtain relay where con: "RelayConnect e u = Inr relay"
    by (auto simp: relay_yields_def split: sum.splits)
  with assms obtain evs where sub: "Subscribe relay [flt] = Inr evs"
    by (auto simp: relay_yields_def split: sum.splits)
  from assms con sub have res: "snd (read_events (json_Unmarshal e) evs) = Some p"
    by (simp add: relay_yields_def read_events_result split: list.splits)
  have logs: "contacted (fst (read_events (json_Unmarshal e) evs)) = []"
    by (simp add: read_events_only_logs)
  from con sub res show "snd (try_relays e flt (u # rest)) = Inr p"
    by (cases "read_events (json_Unmarshal e) evs") simp
  from con sub res logs show "contacted (fst (try_relays e flt (u # rest))) = [u]"
    by (cases "read_events (json_Unmarshal e) evs") (simp add: contacted_append)
  from con sub res show "last (fst (try_relays e flt (u # rest))) = IoClose u"
    by (cases "read_events (json_Unmarshal e) evs") simp
qed

lemma try_relays_none:
  "\<forall>u \<in> set us. relay_yields e flt u = None \<Longrightarrow>
   snd (try_relays e flt us) = Inr empty_profile \<and> contacted (fst (try_relays e flt us)) = us"
proof (induction us)
  case Nil
  then show ?case by simp
next
  case (Cons u us)
  then have "relay_yields e flt u = None" by simp
  from try_relays_skip [OF this, of us] Cons show ?case by simp
qed

lemma try_relays_first_hit:
  "\<forall>u \<in> set pre. relay_yields e flt u = None \<Longrightarrow> relay_yields e flt u = Some p \<Longrightarrow>
   snd (try_relays e flt (pre @ u # post)) = Inr p \<and>
   contacted (fst (try_relays e flt (pre @ u # post))) = pre @ [u] \<and>
   last (fst (try_relays e flt (pre @ u # post))) = IoClose u"
proof (induction pre)
  case Nil
  then show ?case using try_relays_hit [of e flt u p post] by simp
next
  case (Cons v pre)
  then have v: "relay_yields e flt v = None" by simp
  from Cons have ih: "snd (try_relays e flt (pre @ u # post)) = Inr p"
    "contacted (fst (try_relays e flt (pre @ u # post))) = pre @ [u]"
    "last (fst (try_relays e flt (pre @ u # post))) = IoClose u"
    by simp_all
  have ne: "fst (try_relays e flt (pre @ u # post)) \<noteq> []"
    using ih(2) by (cases "fst (try_relays e flt (pre @ u # post))") auto
  from try_relays_skip [OF v, of "pre @ u # post"] ne ih show ?case by simp
qed

lemma try_relays_subscribed:
  "\<forall>flts \<in> set (subscribed (fst (try_relays e flt us))). flts = [flt]"
proof (induction us)
  case Nil
  then show ?case by simp
next
  case (Cons u us)
  show ?case
    using Cons
    by (auto simp: subscribed_append split: sum.splits prod.splits option.splits
        dest: read_events_pair_logs)
qed

lemma try_relays_no_error:
  "\<exists>p. snd (try_relays e flt us) = Inr p"
  by (induction us) (auto split: sum.splits prod.splits option.splits)





text \<open>
  Claim C3. When none of the relay addresses offers a profile (each is unreachable,
  refuses the subscription, stays silent or delivers no event of kind 0 that parses),
  \<^verbatim>\<open>fetchProfileFromRelays\<close> returns the empty profile and no error; and for a request
  whose identifier decodes and whose archive query succeeds, the handler then answers
  with status 200 and the page rendered from the archived events and the empty
  profile.
\<close>

theorem C3_no_profile_still_renders:
  assumes "\<forall>u \<in> set relays. relay_yields e (profile_filter hexPubkey) u = None"
    and "npubToHex (nip19_Decode e) (request_npub r) = Inr hexPubkey"
    and "queryEventsByPubkey (db e) hexPubkey = Inr events"
  shows "snd (fetchProfileFromRelays e hexPubkey) = Inr empty_profile \<and>
         snd (npubHandler e r) =
           \<lparr>status = 200,
            body = render_page (url_sanitize e) (time_Format e)
              \<lparr>Npub = request_npub r, HexPubkey = hexPubkey, Events = events,
               Profile = empty_profile\<rparr>\<rparr>"
proof -
  from assms(1) have fetch: "snd (fetchProfileFromRelays e hexPubkey) = Inr empty_profile"
    unfolding fetchProfileFromRelays_def using try_relays_none by blast
  then obtain tr where "fetchProfileFromRelays e hexPubkey = (tr, Inr empty_profile)"
    by (cases "fetchProfileFromRelays e hexPubkey") simp
  with assms(2,3) have "snd (npubHandler e r) =
      \<lparr>status = 200,
       body = render_page (url_sanitize e) (time_Format e)
         \<lparr>Npub = request_npub r, HexPubkey = hexPubkey, Events = events,
          Profile = empty_profile\<rparr>\<rparr>"
    by (simp add: npubHandler_def)
  with fetch show ?thesis by simp
qed

theorem C3_witness:
  "relay_yields (sample_env db_ok net_down) (profile_filter alice_hex) ''wss://relay.damus.io''
     = None \<and>
   relay_yields (sample_env db_ok net_down) (profile_filter alice_hex) ''wss://yabu.me'' = None \<and>
   relay_yields (sample_env db_ok net_down) (profile_filter alice_hex)
     ''wss://nostr.compile-error.net'' = None \<and>
   npubToHex (nip19_Decode (sample_env db_ok net_down)) (request_npub req_path) = Inr alice_hex \<and>
   queryEventsByPubkey (db (sample_env db_ok net_down)) alice_hex
     = Inr [row_note_new, row_note_old, row_contacts] \<and>
   snd (fetchProfileFromRelays (sample_env db_ok net_down) alice_hex) = Inr empty_profile \<and>
   status (snd (npubHandler (sample_env db_ok net_down) req_path)) = 200"
proof -
  have h1: "\<forall>u \<in> set relays.
      relay_yields (sample_env db_ok net_down) (profile_filter alice_hex) u = None"
    by (simp add: relay_yields_def sample_env_def net_down_def)
  have h2: "npubToHex (nip19_Decode (sample_env db_ok net_down)) (request_npub req_path)
      = Inr alice_hex"
    by (simp add: npubToHex_def sample_env_def sample_Decode_def request_npub_def req_path_def
        TrimPrefix_def alice_npub_def)
  have h3: "queryEventsByPubkey (db (sample_env db_ok net_down)) alice_hex
      = Inr [row_note_new, row_note_old, row_contacts]"
    by (simp add: queryEventsByPubkey_def db_Query_def sample_env_def db_ok_def
        sample_table_def select_by_pubkey_def order_key_def row_note_old_def row_contacts_def
        row_other_def row_note_new_def alice_hex_def less_eq_prod_def)
  from C3_no_profile_still_renders [OF h1 h2 h3] h1 h2 h3 show ?thesis
    by (simp add: relays_def)
qed




text \<open>
  Claim C6. When the addresses before \<open>u\<close> in the fixed list offer no profile and \<open>u\<close>
  offers one (its first event of kind 0 whose content parses), the fetch returns that
  profile without error, it has connected to exactly the addresses up to \<open>u\<close>, and the
  last thing it does is to close the connection to \<open>u\<close>. Every subscription it makes
  carries the single filter with the key as only author, kind 0 as only kind and a
  limit of one.
\<close>

theorem C6_first_profile_ends_fetch:
  assumes "relays = pre @ u # post"
    and "\<forall>v \<in> set pre. relay_yields e (profile_filter pubkey) v = None"
    and "relay_yields e (profile_filter pubkey) u = Some p"
  shows "snd (fetchProfileFromRelays e pubkey) = Inr p \<and>
         contacted (fst (fetchProfileFromRelays e pubkey)) = pre @ [u] \<and>
         last (fst (fetchProfileFromRelays e pubkey)) = IoClose u \<and>
         (\<forall>flts \<in> set (subscribed (fst (fetchProfileFromRelays e pubkey))).
            flts = [\<lparr>Authors = [pubkey], Kinds = [0], Limit = 1\<rparr>])"
proof -
  have "\<forall>flts \<in> set (subscribed (fst (fetchProfileFromRelays e pubkey))).
      flts = [profile_filter pubkey]"
    unfolding fetchProfileFromRelays_def by (rule try_relays_subscribed)
  then have "\<forall>flts \<in> set (subscribed (fst (fetchProfileFromRelays e pubkey))).
      flts = [\<lparr>Authors = [pubkey], Kinds = [0], Limit = 1\<rparr>]"
    by (simp add: profile_filter_def)
  moreover from try_relays_first_hit [OF assms(2,3), of post] assms(1)
  have "snd (fetchProfileFromRelays e pubkey) = Inr p \<and>
         contacted (fst (fetchProfileFromRelays e pubkey)) = pre @ [u] \<and>
         last (fst (fetchProfileFromRelays e pubkey)) = IoClose u"
    by (simp add: fetchProfileFromRelays_def)
  ultimately show ?thesis by blast
qed

theorem C6_witness:
  "relays = [''wss://relay.damus.io''] @ ''wss://yabu.me'' # [''wss://nostr.compile-error.net''] \<and>
   relay_yields (sample_env db_ok net_second) (profile_filter alice_hex) ''wss://relay.damus.io''
     = None \<and>
   relay_yields (sample_env db_ok net_second) (profile_filter alice_hex) ''wss://yabu.me''
     = Some alice_profile \<and>
   snd (fetchProfileFromRelays (sample_env db_ok net_second) alice_hex) = Inr alice_profile \<and>
   contacted (fst (fetchProfileFromRelays (sample_env db_ok net_second) alice_hex))
     = [''wss://relay.damus.io'', ''wss://yabu.me'']"
proof -
  have h1: "relays
      = [''wss://relay.damus.io''] @ ''wss://yabu.me'' # [''wss://nostr.compile-error.net'']"
    by (simp add: relays_def)
  have h2: "\<forall>v \<in> set [''wss://relay.damus.io''].
      relay_yields (sample_env db_ok net_second) (profile_filter alice_hex) v = None"
    by (simp add: relay_yields_def sample_env_def net_second_def)
  have h3: "relay_yields (sample_env db_ok net_second) (profile_filter alice_hex)
      ''wss://yabu.me'' = Some alice_profile"
    by (simp add: relay_yields_def sample_env_def net_second_def parsable_profile_def
        note_event_def good_event_def sample_Unmarshal_def)
  from C6_first_profile_ends_fetch [OF h1 h2 h3] h1 h2 h3 show ?thesis by simp
qed

section \<open>Properties of the handler\<close>

lemma select_none:
  "\<forall>row \<in> set table. Pubkey row \<noteq> arg \<Longrightarrow> select_by_pubkey table arg = []"
  by (simp add: select_by_pubkey_def filter_empty_conv)

lemma query_no_rows:
  assumes "select_by_pubkey (event_backup dbase) pubkey = []"
    and "\<forall>err. fault dbase \<noteq> QueryFault err"
  shows "queryEventsByPubkey dbase pubkey = Inr []"
  using assms by (cases "fault dbase") (simp_all add: queryEventsByPubkey_def db_Query_def)

lemma handler_success:
  assumes "npubToHex (nip19_Decode e) (request_npub r) = Inr hexPubkey"
    and "queryEventsByPubkey (db e) hexPubkey = Inr events"
  shows "\<exists>profile. snd (npubHandler e r) =
           \<lparr>status = 200,
            body = render_page (url_sanitize e) (time_Format e)
              \<lparr>Npub = request_npub r, HexPubkey = hexPubkey, Events = events,
               Profile = profile\<rparr>\<rparr>"
  using assms
  by (cases "fetchProfileFromRelays e hexPubkey")
     (auto simp: npubHandler_def split: sum.splits)

text \<open>The two failures of the storage layer that \<^verbatim>\<open>queryEventsByPubkey\<close> checks, an error
  of \<^verbatim>\<open>db.Query\<close> and an error of \<^verbatim>\<open>rows.Scan\<close>, are answered with status 500.\<close>

lemma handler_query_fault:
  assumes "npubToHex (nip19_Decode e) (request_npub r) = Inr hexPubkey"
    and "fault (db e) = QueryFault err"
  shows "snd (npubHandler e r) = http_Error (''Database error: '' @ err) 500"
  using assms by (simp add: npubHandler_def queryEventsByPubkey_def db_Query_def)

lemma scan_rows_fault:
  "n < length rs \<Longrightarrow> scan_rows ((map Inr rs)[n := Inl err]) acc = Inl err"
proof (induction rs arbitrary: n acc)
  case Nil
  then show ?case by simp
next
  case (Cons x rs)
  then show ?case by (cases n) simp_all
qed

lemma handler_scan_fault:
  assumes "npubToHex (nip19_Decode e) (request_npub r) = Inr hexPubkey"
    and "fault (db e) = ScanFault n err"
    and "n < length (select_by_pubkey (event_backup (db e)) hexPubkey)"
  shows "snd (npubHandler e r) = http_Error (''Database error: '' @ err) 500"
  using assms
  by (simp add: npubHandler_def queryEventsByPubkey_def db_Query_def scan_rows_fault)

lemma Itoa_0: "Itoa 0 = ''0''"
  by (simp add: Itoa_def)

lemma Itoa_1: "Itoa 1 = ''1''"
  by (simp add: Itoa_def)

lemma htmlReplacer_digit: "htmlReplacer ''0'' = ''0''" "htmlReplacer ''1'' = ''1''"
  by (simp_all add: htmlReplacer_def html_replacement_def)

lemma render_page_total:
  "htmlEscaper (Itoa (int (length (Events d)))) = Itoa (int (length (Events d))) \<Longrightarrow>
   sublist (total_events_line (length (Events d))) (render_page urlf fmt d)"
proof -
  assume esc: "htmlEscaper (Itoa (int (length (Events d)))) = Itoa (int (length (Events d)))"
  let ?n = "Itoa (int (length (Events d)))"
  have a: "tmpl_32 = ''\<newline>                '' @ ''<p><strong>Total Events Found:</strong> ''"
    by (simp add: tmpl_32_def)
  have b: "tmpl_34 = ''</p>'' @ drop 4 tmpl_34"
    by (simp add: tmpl_34_def)
  define pre where "pre = render_profile_header urlf d"
  define post where "post = tmpl_36 @ render_events fmt (Events d) @ tmpl_66
       @ (if 0 < length (Events d) then tmpl_68 else []) @ tmpl_70"
  have "render_page urlf fmt d = pre @ tmpl_32 @ ?n @ tmpl_34 @ post"
    unfolding render_page_def esc pre_def post_def by (rule refl)
  also have "\<dots> = pre @ tmpl_32 @ ?n @ (''</p>'' @ drop 4 tmpl_34) @ post"
    using b by simp
  finally have "render_page urlf fmt d =
      (pre @ ''\<newline>                '') @
      (''<p><strong>Total Events Found:</strong> '' @ ?n @ ''</p>'') @ (drop 4 tmpl_34 @ post)"
    by (simp only: a append_assoc)
  then show ?thesis
    unfolding total_events_line_def sublist_def by blast
qed

lemma render_page_no_events:
  "Events d = [] \<Longrightarrow> sublist no_events_line (render_page urlf fmt d)"
proof -
  assume ev: "Events d = []"
  have a: "tmpl_64 = ''\<newline>                '' @ no_events_line @ ''\<newline>            ''"
    by (simp add: tmpl_64_def no_events_line_def)
  define pre where "pre = render_profile_header urlf d
       @ tmpl_32 @ htmlEscaper (Itoa (int (length (Events d)))) @ tmpl_34 @ tmpl_36"
  define post where "post = tmpl_66 @ (if 0 < length (Events d) then tmpl_68 else []) @ tmpl_70"
  have "render_page urlf fmt d = pre @ tmpl_64 @ post"
    unfolding render_page_def render_events_def pre_def post_def using ev
    by simp
  then have "render_page urlf fmt d =
      (pre @ ''\<newline>                '') @ no_events_line @ (''\<newline>            '' @ post)"
    by (simp only: a append_assoc)
  then show ?thesis
    unfolding sublist_def by blast
qed

text \<open>
  Claim C2. An identifier that does not begin with \<^verbatim>\<open>npub1\<close> is rejected by
  \<^verbatim>\<open>npubToHex\<close> whatever the decoder would say, and a request with such an identifier is
  answered with status 400 and the message \<^verbatim>\<open>Invalid npub format\<close>; the trace of the
  handler is then empty: it has sent no query, connected to no relay and logged
  nothing.
\<close>

theorem C2_wrong_prefix_rejected:
  assumes "\<not> prefix ''npub1'' npub"
  shows "npubToHex Decode npub = Inl ''invalid npub format: does not start with npub1'' \<and>
         (\<forall>e r. request_npub r = npub \<longrightarrow>
            npubHandler e r =
              ([], \<lparr>status = 400, body = ''Invalid npub format'' @ [CHR 0x0A]\<rparr>))"
  using assms by (simp add: npubToHex_def npubHandler_def http_Error_def)

theorem C2_witness:
  "\<not> prefix ''npub1'' ''nsec1alice'' \<and> request_npub req_bad = ''nsec1alice'' \<and>
   npubToHex sample_Decode ''nsec1alice''
     = Inl ''invalid npub format: does not start with npub1'' \<and>
   npubHandler (sample_env db_ok net_second) req_bad =
     ([], \<lparr>status = 400, body = ''Invalid npub format'' @ [CHR 0x0A]\<rparr>)"
proof -
  have h: "\<not> prefix ''npub1'' ''nsec1alice''" by simp
  have r: "request_npub req_bad = ''nsec1alice''"
    by (simp add: request_npub_def req_bad_def TrimPrefix_def)
  from C2_wrong_prefix_rejected [OF h, of sample_Decode] h r show ?thesis by blast
qed

text \<open>
  Claim C7. For a request whose identifier decodes to a key that no row of the table
  has as author, on a database whose \<^verbatim>\<open>db.Query\<close> does not fail, the query returns the
  empty sequence, the handler answers with status 200, and the page contains the line
  \<^verbatim>\<open><p><strong>Total Events Found:</strong> 0</p>\<close> and the line
  \<^verbatim>\<open><p>No events found for this pubkey.</p>\<close>.
\<close>

theorem C7_no_rows_page:
  assumes "npubToHex (nip19_Decode e) (request_npub r) = Inr hexPubkey"
    and "\<forall>row \<in> set (event_backup (db e)). Pubkey row \<noteq> hexPubkey"
    and "\<forall>err. fault (db e) \<noteq> QueryFault err"
  shows "queryEventsByPubkey (db e) hexPubkey = Inr [] \<and>
         status (snd (npubHandler e r)) = 200 \<and>
         sublist ''<p><strong>Total Events Found:</strong> 0</p>'' (body (snd (npubHandler e r))) \<and>
         sublist ''<p>No events found for this pubkey.</p>'' (body (snd (npubHandler e r)))"
proof -
  from assms(2) have "select_by_pubkey (event_backup (db e)) hexPubkey = []"
    by (rule select_none)
  then have q: "queryEventsByPubkey (db e) hexPubkey = Inr []"
    using assms(3) by (rule query_no_rows)
  from handler_success [OF assms(1) q] obtain profile where
    resp: "snd (npubHandler e r) =
      \<lparr>status = 200,
       body = render_page (url_sanitize e) (time_Format e)
         \<lparr>Npub = request_npub r, HexPubkey = hexPubkey, Events = [], Profile = profile\<rparr>\<rparr>"
    by blast
  let ?d = "\<lparr>Npub = request_npub r, HexPubkey = hexPubkey, Events = [], Profile = profile\<rparr>"
  have "sublist (total_events_line (length (Events ?d)))
      (render_page (url_sanitize e) (time_Format e) ?d)"
    by (rule render_page_total) (simp add: Itoa_0 htmlEscaper_def htmlReplacer_digit)
  then have t: "sublist ''<p><strong>Total Events Found:</strong> 0</p>''
      (render_page (url_sanitize e) (time_Format e) ?d)"
    by (simp add: total_events_line_def Itoa_0)
  have "sublist no_events_line (render_page (url_sanitize e) (time_Format e) ?d)"
    by (rule render_page_no_events) simp
  then have n: "sublist ''<p>No events found for this pubkey.</p>''
      (render_page (url_sanitize e) (time_Format e) ?d)"
    by (simp only: no_events_line_def)
  from q resp t n show ?thesis by simp
qed

theorem C7_witness:
  "npubToHex (nip19_Decode (sample_env db_other_only net_second)) (request_npub req_query)
     = Inr alice_hex \<and>
   Pubkey row_other \<noteq> alice_hex \<and>
   fault (db (sample_env db_other_only net_second)) = NoFault \<and>
   queryEventsByPubkey (db (sample_env db_other_only net_second)) alice_hex = Inr [] \<and>
   status (snd (npubHandler (sample_env db_other_only net_second) req_query)) = 200 \<and>
   sublist ''<p><strong>Total Events Found:</strong> 0</p>''
     (body (snd (npubHandler (sample_env db_other_only net_second) req_query))) \<and>
   sublist ''<p>No events found for this pubkey.</p>''
     (body (snd (npubHandler (sample_env db_other_only net_second) req_query)))"
proof -
  let ?e = "sample_env db_other_only net_second"
  have h1: "npubToHex (nip19_Decode ?e) (request_npub req_query) = Inr alice_hex"
    by (simp add: npubToHex_def sample_env_def sample_Decode_def request_npub_def req_query_def
        TrimPrefix_def alice_npub_def Values_Get_def)
  have h2: "\<forall>row \<in> set (event_backup (db ?e)). Pubkey row \<noteq> alice_hex"
    by (simp add: sample_env_def db_other_only_def row_other_def alice_hex_def)
  have h3: "\<forall>err. fault (db ?e) \<noteq> QueryFault err"
    by (simp add: sample_env_def db_other_only_def)
  have h2': "Pubkey row_other \<noteq> alice_hex"
    by (simp add: row_other_def alice_hex_def)
  have h3': "fault (db ?e) = NoFault"
    by (simp add: sample_env_def db_other_only_def)
  from C7_no_rows_page [OF h1 h2 h3] h1 h2' h3' show ?thesis by blast
qed

text \<open>
  Claim C10. When the path is \<^verbatim>\<open>/npub/\<close> followed by a non-empty rest, the rest is the
  identifier and the handler's trace and response are the same whatever the query
  holds; when the path is exactly \<^verbatim>\<open>/npub/\<close>, the identifier is the first value of the
  parameter \<^verbatim>\<open>q\<close>, or empty without one.
\<close>

theorem C10_path_before_query:
  "(URL_Path r = ''/npub/'' @ rest \<and> rest \<noteq> [] \<longrightarrow>
      request_npub r = rest \<and>
      npubHandler e (r\<lparr>URL_Query := q\<rparr>) = npubHandler e r) \<and>
   (URL_Path r = ''/npub/'' \<longrightarrow> request_npub r = Values_Get (URL_Query r) ''q'')"
proof (intro conjI impI)
  assume h: "URL_Path r = ''/npub/'' @ rest \<and> rest \<noteq> []"
  then have t: "TrimPrefix (URL_Path r) ''/npub/'' = rest"
    by (simp add: TrimPrefix_def)
  with h show "request_npub r = rest"
    by (simp add: request_npub_def Let_def)
  from t h have "request_npub (r\<lparr>URL_Query := q\<rparr>) = request_npub r"
    by (simp add: request_npub_def Let_def)
  then show "npubHandler e (r\<lparr>URL_Query := q\<rparr>) = npubHandler e r"
    by (simp add: npubHandler_def)
next
  assume "URL_Path r = ''/npub/''"
  then show "request_npub r = Values_Get (URL_Query r) ''q''"
    by (simp add: request_npub_def TrimPrefix_def)
qed

theorem C10_witness:
  "URL_Path req_both = ''/npub/'' @ ''npub1alice'' \<and> ''npub1alice'' \<noteq> [] \<and>
   request_npub req_both = ''npub1alice'' \<and>
   npubHandler (sample_env db_ok net_second) (req_both\<lparr>URL_Query := Map.empty\<rparr>)
     = npubHandler (sample_env db_ok net_second) req_both \<and>
   URL_Path req_query = ''/npub/'' \<and>
   request_npub req_query = Values_Get (URL_Query req_query) ''q'' \<and>
   Values_Get (URL_Query req_query) ''q'' = ''npub1alice''"
proof -
  have h1: "URL_Path req_both = ''/npub/'' @ ''npub1alice'' \<and> ''npub1alice'' \<noteq> []"
    by (simp add: req_both_def)
  have h2: "URL_Path req_query = ''/npub/''"
    by (simp add: req_query_def)
  have v: "Values_Get (URL_Query req_query) ''q'' = ''npub1alice''"
    by (simp add: req_query_def Values_Get_def)
  from C10_path_before_query [of req_both "''npub1alice''" "sample_env db_ok net_second"
      Map.empty] h1
  have a: "request_npub req_both = ''npub1alice'' \<and>
      npubHandler (sample_env db_ok net_second) (req_both\<lparr>URL_Query := Map.empty\<rparr>)
        = npubHandler (sample_env db_ok net_second) req_both"
    by blast
  from C10_path_before_query [of req_query "[]" "sample_env db_ok net_second" Map.empty] h2
  have b: "request_npub req_query = Values_Get (URL_Query req_query) ''q''"
    by blast
  from h1 h2 v a b show ?thesis by blast
qed

text \<open>
  Claim C4 does not hold of the code. On a database whose result stream breaks
  after the first of three rows of the key, \<^verbatim>\<open>rows.Next\<close> returns false and
  \<^verbatim>\<open>rows.Err\<close> holds the error, which \<^verbatim>\<open>queryEventsByPubkey\<close> never reads: the query
  returns the one row without error, and the handler answers with status 200 and a
  page that counts one event.
\<close>

theorem C4_broken_stream_truncated_page:
  "fault db_broken_stream = NextFault 1 ''unexpected EOF'' \<and>
   select_by_pubkey (event_backup db_broken_stream) alice_hex
     = [row_note_new, row_note_old, row_contacts] \<and>
   db_Query db_broken_stream alice_hex
     = Inr \<lparr>scans = [Inr row_note_new], rows_Err = Some ''unexpected EOF''\<rparr> \<and>
   queryEventsByPubkey db_broken_stream alice_hex = Inr [row_note_new] \<and>
   status (snd (npubHandler (sample_env db_broken_stream net_down) req_path)) = 200 \<and>
   sublist ''<p><strong>Total Events Found:</strong> 1</p>''
     (body (snd (npubHandler (sample_env db_broken_stream net_down) req_path)))"
proof -
  let ?e = "sample_env db_broken_stream net_down"
  have f: "fault db_broken_stream = NextFault 1 ''unexpected EOF''"
    by (simp add: db_broken_stream_def)
  have s: "select_by_pubkey (event_backup db_broken_stream) alice_hex
      = [row_note_new, row_note_old, row_contacts]"
    by (simp add: db_broken_stream_def sample_table_def select_by_pubkey_def order_key_def
        row_note_old_def row_contacts_def row_other_def row_note_new_def alice_hex_def
        less_eq_prod_def)
  from f s have c: "db_Query db_broken_stream alice_hex
      = Inr \<lparr>scans = [Inr row_note_new], rows_Err = Some ''unexpected EOF''\<rparr>"
    by (simp add: db_Query_def)
  then have q: "queryEventsByPubkey db_broken_stream alice_hex = Inr [row_note_new]"
    by (simp add: queryEventsByPubkey_def)
  then have q': "queryEventsByPubkey (db ?e) alice_hex = Inr [row_note_new]"
    by (simp add: sample_env_def)
  have d: "npubToHex (nip19_Decode ?e) (request_npub req_path) = Inr alice_hex"
    by (simp add: npubToHex_def sample_env_def sample_Decode_def request_npub_def req_path_def
        TrimPrefix_def alice_npub_def)
  from handler_success [OF d q'] obtain profile where
    resp: "snd (npubHandler ?e req_path) =
      \<lparr>status = 200,
       body = render_page (url_sanitize ?e) (time_Format ?e)
         \<lparr>Npub = request_npub req_path, HexPubkey = alice_hex, Events = [row_note_new],
          Profile = profile\<rparr>\<rparr>"
    by blast
  let ?d = "\<lparr>Npub = request_npub req_path, HexPubkey = alice_hex, Events = [row_note_new],
          Profile = profile\<rparr>"
  have "sublist (total_events_line (length (Events ?d)))
      (render_page (url_sanitize ?e) (time_Format ?e) ?d)"
    by (rule render_page_total) (simp add: Itoa_1 htmlEscaper_def htmlReplacer_digit)
  then have t: "sublist ''<p><strong>Total Events Found:</strong> 1</p>''
      (render_page (url_sanitize ?e) (time_Format ?e) ?d)"
    by (simp add: total_events_line_def Itoa_1)
  from f s c q resp t show ?thesis by simp
qed

section \<open>Properties of the page\<close>

lemma markup_of_append:
  "markup_of (xs @ ys) = markup_of xs @ markup_of ys"
  by (simp add: markup_of_def)

lemma markup_of_Nil:
  "markup_of [] = []"
  by (simp add: markup_of_def)

lemma markup_of_replacement:
  "markup_of (html_replacement c) = []"
  by (simp add: markup_of_def html_replacement_def is_markup_def)

lemma markup_of_htmlReplacer:
  "markup_of (htmlReplacer s) = []"
  by (induction s)
     (simp_all add: htmlReplacer_def markup_of_append markup_of_replacement markup_of_Nil)

lemma markup_of_escaped:
  "markup_of (htmlEscaper s) = []" "markup_of (attrEscaper s) = []"
  "markup_of (rcdataEscaper s) = []"
  by (simp_all add: htmlEscaper_def attrEscaper_def rcdataEscaper_def markup_of_htmlReplacer)

lemma markup_of_if:
  "markup_of (if b then xs else ys) = (if b then markup_of xs else markup_of ys)"
  by simp

lemma markup_render_event:
  "Kind e = Kind e' \<Longrightarrow>
   markup_of (render_event fmt ck e) = markup_of (render_event fmt' ck e')"
  by (simp add: render_event_def kind_header_def markup_of_append markup_of_escaped
      markup_of_if)

lemma markup_render_range:
  "map Kind es = map Kind es' \<Longrightarrow>
   markup_of (render_range fmt ck es) = markup_of (render_range fmt' ck es')"
proof (induction es arbitrary: es' ck)
  case Nil
  then show ?case by simp
next
  case (Cons x xs)
  then obtain y ys where es': "es' = y # ys" and k: "Kind x = Kind y"
    and m: "map Kind xs = map Kind ys"
    by (cases es') auto
  from k have "markup_of (render_event fmt ck x) = markup_of (render_event fmt' ck y)"
    by (rule markup_render_event)
  moreover from Cons.IH [OF m]
  have "markup_of (render_range fmt (if Kind x \<noteq> ck then Kind x else ck) xs)
      = markup_of (render_range fmt' (if Kind y \<noteq> ck then Kind y else ck) ys)"
    using k by simp
  ultimately show ?case
    unfolding es' by (simp only: render_range.simps markup_of_append)
qed

lemma markup_render_events:
  "map Kind es = map Kind es' \<Longrightarrow>
   markup_of (render_events fmt es) = markup_of (render_events fmt' es')"
proof -
  assume m: "map Kind es = map Kind es'"
  then have "es = [] \<longleftrightarrow> es' = []"
    by (metis map_is_Nil_conv)
  with markup_render_range [OF m] show ?thesis
    by (simp add: render_events_def)
qed

lemma markup_render_profile_header:
  "same_shape d d' \<Longrightarrow>
   markup_of (render_profile_header urlf d) = markup_of (render_profile_header urlf' d')"
  by (simp add: same_shape_def render_profile_header_def markup_of_append markup_of_escaped
      markup_of_if)

lemma markup_render_page:
  assumes "same_shape d d'"
  shows "markup_of (render_page urlf fmt d) = markup_of (render_page urlf' fmt' d')"
proof -
  from assms have m: "map Kind (Events d) = map Kind (Events d')"
    by (simp add: same_shape_def)
  then have l: "length (Events d) = length (Events d')"
    by (metis length_map)
  from markup_render_profile_header [OF assms, of urlf urlf']
    markup_render_events [OF m, of fmt fmt'] l
  show ?thesis
    by (simp add: render_page_def markup_of_append markup_of_escaped markup_of_if)
qed

lemma render_event_payload:
  "sublist (tmpl_56 @ attrEscaper (EventData e) @ tmpl_58 @ htmlEscaper (EventData e)
      @ tmpl_60 @ htmlEscaper (ID e) @ tmpl_62) (render_event fmt ck e)"
proof -
  have "render_event fmt ck e =
      (tmpl_38 @ kind_header ck e @ tmpl_50 @ htmlEscaper (GetFormattedDate fmt e)
         @ tmpl_52 @ (if Kind e = 3 then tmpl_54 else []))
      @ (tmpl_56 @ attrEscaper (EventData e) @ tmpl_58 @ htmlEscaper (EventData e)
      @ tmpl_60 @ htmlEscaper (ID e) @ tmpl_62) @ []"
    by (simp add: render_event_def)
  then show ?thesis
    unfolding sublist_def by blast
qed

text \<open>
  Claim C8. Every value the page inserts passes through an escaper whose result has no
  markup character: the characters \<^verbatim>\<open><\<close>, \<^verbatim>\<open>>\<close>, \<^verbatim>\<open>"\<close> and \<^verbatim>\<open>'\<close> of a page come from the
  template alone. An event's payload stands escaped in the attribute
  \<^verbatim>\<open>data-content\<close> and escaped in the \<^verbatim>\<open>pre\<close> block, followed by its escaped identifier; and
  two pages of the same shape, which differ only in the identifier, the key, the texts
  of the profile, and the payloads, identifiers and timestamps of the events, have the
  same markup characters in the same order.
\<close>

theorem C8_inserted_text_is_escaped:
  assumes "same_shape d d'"
  shows "markup_of (render_page urlf fmt d) = markup_of (render_page urlf fmt d') \<and>
         markup_of (attrEscaper s) = [] \<and> markup_of (htmlEscaper s) = [] \<and>
         markup_of (rcdataEscaper s) = [] \<and>
         sublist (tmpl_56 @ attrEscaper (EventData e) @ tmpl_58 @ htmlEscaper (EventData e)
           @ tmpl_60 @ htmlEscaper (ID e) @ tmpl_62) (render_event fmt ck e)"
  using markup_render_page [OF assms] markup_of_escaped render_event_payload by blast

theorem C8_witness:
  "same_shape hostile_page plain_page \<and>
   markup_of (render_page (\<lambda>s. s) sample_Format hostile_page)
     = markup_of (render_page (\<lambda>s. s) sample_Format plain_page) \<and>
   attrEscaper (EventData hostile_event)
     = ''&#34;&gt;&lt;script&gt;alert(1)&lt;/script&gt;'' \<and>
   markup_of (attrEscaper (EventData hostile_event)) = []"
proof -
  have h: "same_shape hostile_page plain_page"
    by (simp add: same_shape_def hostile_page_def plain_page_def hostile_event_def
        row_note_old_def row_contacts_def row_note_new_def)
  have a: "attrEscaper (EventData hostile_event)
     = ''&#34;&gt;&lt;script&gt;alert(1)&lt;/script&gt;''"
    by (simp add: hostile_event_def attrEscaper_def htmlReplacer_def html_replacement_def)
  from C8_inserted_text_is_escaped [OF h, of "\<lambda>s. s" sample_Format
      "EventData hostile_event" hostile_event] h a
  show ?thesis by blast
qed

lemma lt_not_in_replacement:
  "CHR ''<'' \<notin> set (html_replacement c)"
  by (simp add: html_replacement_def)

lemma lt_not_in_htmlReplacer:
  "CHR ''<'' \<notin> set (htmlReplacer s)"
  by (simp add: htmlReplacer_def lt_not_in_replacement)

lemma sublist_skip_text:
  "c \<notin> set esc \<Longrightarrow> sublist (c # n) (esc @ rest) \<longleftrightarrow> sublist (c # n) rest"
  by (induction esc) (simp_all add: sublist_Cons_right)

lemma start_skip_escaped:
  "sublist restore_button_start (htmlEscaper s @ rest) \<longleftrightarrow> sublist restore_button_start rest"
  "sublist restore_button_start (attrEscaper s @ rest) \<longleftrightarrow> sublist restore_button_start rest"
  unfolding restore_button_start_def htmlEscaper_def attrEscaper_def
  by (simp_all add: sublist_skip_text lt_not_in_htmlReplacer)

lemma start_skip_38:
  "sublist restore_button_start (tmpl_38 @ rest) \<longleftrightarrow> sublist restore_button_start rest"
  by (simp add: tmpl_38_def restore_button_start_def sublist_Cons_right)

lemma start_skip_40:
  "sublist restore_button_start (tmpl_40 @ rest) \<longleftrightarrow> sublist restore_button_start rest"
  by (simp add: tmpl_40_def restore_button_start_def sublist_Cons_right)

lemma start_skip_42:
  "sublist restore_button_start (tmpl_42 @ rest) \<longleftrightarrow> sublist restore_button_start rest"
  by (simp add: tmpl_42_def restore_button_start_def sublist_Cons_right)

lemma start_skip_44:
  "sublist restore_button_start (tmpl_44 @ rest) \<longleftrightarrow> sublist restore_button_start rest"
  by (simp add: tmpl_44_def restore_button_start_def sublist_Cons_right)

lemma start_skip_46:
  "sublist restore_button_start (tmpl_46 @ rest) \<longleftrightarrow> sublist restore_button_start rest"
  by (simp add: tmpl_46_def restore_button_start_def sublist_Cons_right)

lemma start_skip_48:
  "sublist restore_button_start (tmpl_48 @ rest) \<longleftrightarrow> sublist restore_button_start rest"
  by (simp add: tmpl_48_def restore_button_start_def sublist_Cons_right)

lemma start_skip_50:
  "sublist restore_button_start (tmpl_50 @ rest) \<longleftrightarrow> sublist restore_button_start rest"
  by (simp add: tmpl_50_def restore_button_start_def sublist_Cons_right)

lemma start_skip_52:
  "sublist restore_button_start (tmpl_52 @ rest) \<longleftrightarrow> sublist restore_button_start rest"
  by (simp add: tmpl_52_def restore_button_start_def sublist_Cons_right)

lemma start_skip_56:
  "sublist restore_button_start (tmpl_56 @ rest) \<longleftrightarrow> sublist restore_button_start rest"
  by (simp add: tmpl_56_def restore_button_start_def sublist_Cons_right)

lemma start_skip_58:
  "sublist restore_button_start (tmpl_58 @ rest) \<longleftrightarrow> sublist restore_button_start rest"
  by (simp add: tmpl_58_def restore_button_start_def sublist_Cons_right)

lemma start_skip_60:
  "sublist restore_button_start (tmpl_60 @ rest) \<longleftrightarrow> sublist restore_button_start rest"
  by (simp add: tmpl_60_def restore_button_start_def sublist_Cons_right)

lemma start_not_in_62:
  "\<not> sublist restore_button_start tmpl_62"
  by (simp add: tmpl_62_def restore_button_start_def sublist_Cons_right)

lemmas start_skip =
  start_skip_escaped start_skip_38 start_skip_40 start_skip_42 start_skip_44 start_skip_46
  start_skip_48 start_skip_50 start_skip_52 start_skip_56 start_skip_58 start_skip_60
  start_not_in_62

lemma start_skip_kind_header:
  "sublist restore_button_start (kind_header ck e @ rest) \<longleftrightarrow> sublist restore_button_start rest"
  by (simp add: kind_header_def start_skip)

lemma no_start_without_kind_3:
  "Kind e \<noteq> 3 \<Longrightarrow> \<not> sublist restore_button_start (render_event fmt ck e)"
  by (simp add: render_event_def start_skip start_skip_kind_header)

lemma start_of_restore_button:
  "sublist restore_button_start restore_button"
proof -
  have "prefix restore_button_start restore_button"
    by (simp add: restore_button_start_def restore_button_def tmpl_54_def)
  then show ?thesis by (rule prefix_imp_sublist)
qed

lemma restore_button_needs_kind_3:
  assumes "sublist restore_button (render_event fmt ck e)"
  shows "Kind e = 3"
proof (rule ccontr)
  assume "Kind e \<noteq> 3"
  then have "\<not> sublist restore_button_start (render_event fmt ck e)"
    by (rule no_start_without_kind_3)
  moreover from start_of_restore_button assms
  have "sublist restore_button_start (render_event fmt ck e)"
    by (rule sublist_order.order.trans)
  ultimately show False by contradiction
qed

lemma restore_button_with_kind_3:
  assumes "Kind e = 3"
  shows "sublist restore_button (render_event fmt ck e)"
proof -
  from assms have "render_event fmt ck e =
      (tmpl_38 @ kind_header ck e @ tmpl_50 @ htmlEscaper (GetFormattedDate fmt e) @ tmpl_52)
      @ restore_button
      @ (tmpl_56 @ attrEscaper (EventData e) @ tmpl_58 @ htmlEscaper (EventData e)
         @ tmpl_60 @ htmlEscaper (ID e) @ tmpl_62)"
    by (simp add: render_event_def restore_button_def)
  then show ?thesis
    unfolding sublist_def by blast
qed

lemma copy_button_in_56:
  "tmpl_56 = take 29 tmpl_56 @ copy_button @ drop 97 tmpl_56"
  by (simp add: tmpl_56_def copy_button_def)

lemma copy_button_always:
  "sublist copy_button (render_event fmt ck e)"
proof -
  have "render_event fmt ck e =
      (tmpl_38 @ kind_header ck e @ tmpl_50 @ htmlEscaper (GetFormattedDate fmt e) @ tmpl_52
         @ (if Kind e = 3 then tmpl_54 else []))
      @ tmpl_56
      @ (attrEscaper (EventData e) @ tmpl_58 @ htmlEscaper (EventData e)
         @ tmpl_60 @ htmlEscaper (ID e) @ tmpl_62)"
    by (simp add: render_event_def)
  also have "\<dots> =
      ((tmpl_38 @ kind_header ck e @ tmpl_50 @ htmlEscaper (GetFormattedDate fmt e) @ tmpl_52
         @ (if Kind e = 3 then tmpl_54 else [])) @ take 29 tmpl_56)
      @ copy_button
      @ (drop 97 tmpl_56 @ attrEscaper (EventData e) @ tmpl_58 @ htmlEscaper (EventData e)
         @ tmpl_60 @ htmlEscaper (ID e) @ tmpl_62)"
    by (subst copy_button_in_56) (simp only: append_assoc)
  finally show ?thesis
    unfolding sublist_def by blast
qed

lemma occurrences_skip_text:
  "c \<notin> set esc \<Longrightarrow> occurrences (c # n) (esc @ rest) = occurrences (c # n) rest"
  by (induction esc) simp_all

lemma sublist_iff_occurrences:
  "sublist n xs \<longleftrightarrow> 0 < occurrences n xs"
  by (induction xs) (auto simp: sublist_Cons_right)

lemma restore_count_escaped:
  "occurrences restore_button (htmlEscaper s @ rest) = occurrences restore_button rest"
  "occurrences restore_button (attrEscaper s @ rest) = occurrences restore_button rest"
  "occurrences restore_button (rcdataEscaper s @ rest) = occurrences restore_button rest"
  unfolding restore_button_def tmpl_54_def htmlEscaper_def attrEscaper_def rcdataEscaper_def
  by (simp_all add: occurrences_skip_text lt_not_in_htmlReplacer)

lemma restore_count_0:
  "occurrences restore_button (tmpl_0 @ rest) = occurrences restore_button rest"
  by (simp add: restore_button_def tmpl_54_def tmpl_0_def)

lemma restore_count_2:
  "occurrences restore_button (tmpl_2 @ rest) = occurrences restore_button rest"
  by (simp add: restore_button_def tmpl_54_def tmpl_2_def)

lemma restore_count_4:
  "occurrences restore_button (tmpl_4 @ rest) = occurrences restore_button rest"
  by (simp add: restore_button_def tmpl_54_def tmpl_4_def)

lemma restore_count_6:
  "occurrences restore_button (tmpl_6 @ rest) = occurrences restore_button rest"
  by (simp add: restore_button_def tmpl_54_def tmpl_6_def)

lemma restore_count_8:
  "occurrences restore_button (tmpl_8 @ rest) = occurrences restore_button rest"
  by (simp add: restore_button_def tmpl_54_def tmpl_8_def)

lemma restore_count_14:
  "occurrences restore_button (tmpl_14 @ rest) = occurrences restore_button rest"
  by (simp add: restore_button_def tmpl_54_def tmpl_14_def)

lemma restore_count_16:
  "occurrences restore_button (tmpl_16 @ rest) = occurrences restore_button rest"
  by (simp add: restore_button_def tmpl_54_def tmpl_16_def)

lemma restore_count_18:
  "occurrences restore_button (tmpl_18 @ rest) = occurrences restore_button rest"
  by (simp add: restore_button_def tmpl_54_def tmpl_18_def)

lemma restore_count_20:
  "occurrences restore_button (tmpl_20 @ rest) = occurrences restore_button rest"
  by (simp add: restore_button_def tmpl_54_def tmpl_20_def)

lemma restore_count_22:
  "occurrences restore_button (tmpl_22 @ rest) = occurrences restore_button rest"
  by (simp add: restore_button_def tmpl_54_def tmpl_22_def)

lemma restore_count_24:
  "occurrences restore_button (tmpl_24 @ rest) = occurrences restore_button rest"
  by (simp add: restore_button_def tmpl_54_def tmpl_24_def)

lemma restore_count_26:
  "occurrences restore_button (tmpl_26 @ rest) = occurrences restore_button rest"
  by (simp add: restore_button_def tmpl_54_def tmpl_26_def)

lemma restore_count_28:
  "occurrences restore_button (tmpl_28 @ rest) = occurrences restore_button rest"
  by (simp add: restore_button_def tmpl_54_def tmpl_28_def)

lemma restore_count_30:
  "occurrences restore_button (tmpl_30 @ rest) = occurrences restore_button rest"
  by (simp add: restore_button_def tmpl_54_def tmpl_30_def)

lemma restore_count_32:
  "occurrences restore_button (tmpl_32 @ rest) = occurrences restore_button rest"
  by (simp add: restore_button_def tmpl_54_def tmpl_32_def)

lemma restore_count_34:
  "occurrences restore_button (tmpl_34 @ rest) = occurrences restore_button rest"
  by (simp add: restore_button_def tmpl_54_def tmpl_34_def)

lemma restore_count_36:
  "occurrences restore_button (tmpl_36 @ rest) = occurrences restore_button rest"
  by (simp add: restore_button_def tmpl_54_def tmpl_36_def)

lemma restore_count_38:
  "occurrences restore_button (tmpl_38 @ rest) = occurrences restore_button rest"
  by (simp add: restore_button_def tmpl_54_def tmpl_38_def)

lemma restore_count_40:
  "occurrences restore_button (tmpl_40 @ rest) = occurrences restore_button rest"
  by (simp add: restore_button_def tmpl_54_def tmpl_40_def)

lemma restore_count_42:
  "occurrences restore_button (tmpl_42 @ rest) = occurrences restore_button rest"
  by (simp add: restore_button_def tmpl_54_def tmpl_42_def)

lemma restore_count_44:
  "occurrences restore_button (tmpl_44 @ rest) = occurrences restore_button rest"
  by (simp add: restore_button_def tmpl_54_def tmpl_44_def)

lemma restore_count_46:
  "occurrences restore_button (tmpl_46 @ rest) = occurrences restore_button rest"
  by (simp add: restore_button_def tmpl_54_def tmpl_46_def)

lemma restore_count_48:
  "occurrences restore_button (tmpl_48 @ rest) = occurrences restore_button rest"
  by (simp add: restore_button_def tmpl_54_def tmpl_48_def)

lemma restore_count_50:
  "occurrences restore_button (tmpl_50 @ rest) = occurrences restore_button rest"
  by (simp add: restore_button_def tmpl_54_def tmpl_50_def)

lemma restore_count_52:
  "occurrences restore_button (tmpl_52 @ rest) = occurrences restore_button rest"
  by (simp add: restore_button_def tmpl_54_def tmpl_52_def)

lemma restore_count_54:
  "occurrences restore_button (tmpl_54 @ rest) = Suc (occurrences restore_button rest)"
  by (simp add: restore_button_def tmpl_54_def)

lemma restore_count_56:
  "occurrences restore_button (tmpl_56 @ rest) = occurrences restore_button rest"
  by (simp add: restore_button_def tmpl_54_def tmpl_56_def)

lemma restore_count_58:
  "occurrences restore_button (tmpl_58 @ rest) = occurrences restore_button rest"
  by (simp add: restore_button_def tmpl_54_def tmpl_58_def)

lemma restore_count_60:
  "occurrences restore_button (tmpl_60 @ rest) = occurrences restore_button rest"
  by (simp add: restore_button_def tmpl_54_def tmpl_60_def)

lemma restore_count_62:
  "occurrences restore_button (tmpl_62 @ rest) = occurrences restore_button rest"
  by (simp add: restore_button_def tmpl_54_def tmpl_62_def)

lemma restore_count_64:
  "occurrences restore_button (tmpl_64 @ rest) = occurrences restore_button rest"
  by (simp add: restore_button_def tmpl_54_def tmpl_64_def)

lemma restore_count_66:
  "occurrences restore_button (tmpl_66 @ rest) = occurrences restore_button rest"
  by (simp add: restore_button_def tmpl_54_def tmpl_66_def)

lemma restore_count_68:
  "occurrences restore_button (tmpl_68 @ rest) = occurrences restore_button rest"
  by (simp add: restore_button_def tmpl_54_def tmpl_68_def)

lemma restore_count_70:
  "occurrences restore_button (tmpl_70 @ rest) = occurrences restore_button rest"
  by (simp add: restore_button_def tmpl_54_def tmpl_70_def)

lemma restore_count_end:
  "occurrences restore_button tmpl_70 = 0"
  using restore_count_70 [of "[]"] by (simp add: restore_button_def tmpl_54_def)

lemmas restore_count =
  restore_count_escaped restore_count_end
  restore_count_0 restore_count_2 restore_count_4 restore_count_6 restore_count_8
  restore_count_14 restore_count_16 restore_count_18 restore_count_20 restore_count_22
  restore_count_24 restore_count_26 restore_count_28 restore_count_30 restore_count_32
  restore_count_34 restore_count_36 restore_count_38 restore_count_40 restore_count_42
  restore_count_44 restore_count_46 restore_count_48 restore_count_50 restore_count_52
  restore_count_54 restore_count_56 restore_count_58 restore_count_60 restore_count_62
  restore_count_64 restore_count_66 restore_count_68 restore_count_70

lemma copy_count_escaped:
  "occurrences copy_button (htmlEscaper s @ rest) = occurrences copy_button rest"
  "occurrences copy_button (attrEscaper s @ rest) = occurrences copy_button rest"
  "occurrences copy_button (rcdataEscaper s @ rest) = occurrences copy_button rest"
  unfolding copy_button_def htmlEscaper_def attrEscaper_def rcdataEscaper_def
  by (simp_all add: occurrences_skip_text lt_not_in_htmlReplacer)

lemma copy_count_0:
  "occurrences copy_button (tmpl_0 @ rest) = occurrences copy_button rest"
  by (simp add: copy_button_def tmpl_0_def)

lemma copy_count_2:
  "occurrences copy_button (tmpl_2 @ rest) = occurrences copy_button rest"
  by (simp add: copy_button_def tmpl_2_def)

lemma copy_count_4:
  "occurrences copy_button (tmpl_4 @ rest) = occurrences copy_button rest"
  by (simp add: copy_button_def tmpl_4_def)

lemma copy_count_6:
  "occurrences copy_button (tmpl_6 @ rest) = occurrences copy_button rest"
  by (simp add: copy_button_def tmpl_6_def)

lemma copy_count_8:
  "occurrences copy_button (tmpl_8 @ rest) = occurrences copy_button rest"
  by (simp add: copy_button_def tmpl_8_def)

lemma copy_count_14:
  "occurrences copy_button (tmpl_14 @ rest) = occurrences copy_button rest"
  by (simp add: copy_button_def tmpl_14_def)

lemma copy_count_16:
  "occurrences copy_button (tmpl_16 @ rest) = occurrences copy_button rest"
  by (simp add: copy_button_def tmpl_16_def)

lemma copy_count_18:
  "occurrences copy_button (tmpl_18 @ rest) = occurrences copy_button rest"
  by (simp add: copy_button_def tmpl_18_def)

lemma copy_count_20:
  "occurrences copy_button (tmpl_20 @ rest) = occurrences copy_button rest"
  by (simp add: copy_button_def tmpl_20_def)

lemma copy_count_22:
  "occurrences copy_button (tmpl_22 @ rest) = occurrences copy_button rest"
  by (simp add: copy_button_def tmpl_22_def)

lemma copy_count_24:
  "occurrences copy_button (tmpl_24 @ rest) = occurrences copy_button rest"
  by (simp add: copy_button_def tmpl_24_def)

lemma copy_count_26:
  "occurrences copy_button (tmpl_26 @ rest) = occurrences copy_button rest"
  by (simp add: copy_button_def tmpl_26_def)

lemma copy_count_28:
  "occurrences copy_button (tmpl_28 @ rest) = occurrences copy_button rest"
  by (simp add: copy_button_def tmpl_28_def)

lemma copy_count_30:
  "occurrences copy_button (tmpl_30 @ rest) = occurrences copy_button rest"
  by (simp add: copy_button_def tmpl_30_def)

lemma copy_count_32:
  "occurrences copy_button (tmpl_32 @ rest) = occurrences copy_button rest"
  by (simp add: copy_button_def tmpl_32_def)

lemma copy_count_34:
  "occurrences copy_button (tmpl_34 @ rest) = occurrences copy_button rest"
  by (simp add: copy_button_def tmpl_34_def)

lemma copy_count_36:
  "occurrences copy_button (tmpl_36 @ rest) = occurrences copy_button rest"
  by (simp add: copy_button_def tmpl_36_def)

lemma copy_count_38:
  "occurrences copy_button (tmpl_38 @ rest) = occurrences copy_button rest"
  by (simp add: copy_button_def tmpl_38_def)

lemma copy_count_40:
  "occurrences copy_button (tmpl_40 @ rest) = occurrences copy_button rest"
  by (simp add: copy_button_def tmpl_40_def)

lemma copy_count_42:
  "occurrences copy_button (tmpl_42 @ rest) = occurrences copy_button rest"
  by (simp add: copy_button_def tmpl_42_def)

lemma copy_count_44:
  "occurrences copy_button (tmpl_44 @ rest) = occurrences copy_button rest"
  by (simp add: copy_button_def tmpl_44_def)

lemma copy_count_46:
  "occurrences copy_button (tmpl_46 @ rest) = occurrences copy_button rest"
  by (simp add: copy_button_def tmpl_46_def)

lemma copy_count_48:
  "occurrences copy_button (tmpl_48 @ rest) = occurrences copy_button rest"
  by (simp add: copy_button_def tmpl_48_def)

lemma copy_count_50:
  "occurrences copy_button (tmpl_50 @ rest) = occurrences copy_button rest"
  by (simp add: copy_button_def tmpl_50_def)

lemma copy_count_52:
  "occurrences copy_button (tmpl_52 @ rest) = occurrences copy_button rest"
  by (simp add: copy_button_def tmpl_52_def)

lemma copy_count_54:
  "occurrences copy_button (tmpl_54 @ rest) = occurrences copy_button rest"
  by (simp add: copy_button_def tmpl_54_def)

lemma copy_count_56:
  "occurrences copy_button (tmpl_56 @ rest) = Suc (occurrences copy_button rest)"
  by (simp add: copy_button_def tmpl_56_def)

lemma copy_count_58:
  "occurrences copy_button (tmpl_58 @ rest) = occurrences copy_button rest"
  by (simp add: copy_button_def tmpl_58_def)

lemma copy_count_60:
  "occurrences copy_button (tmpl_60 @ rest) = occurrences copy_button rest"
  by (simp add: copy_button_def tmpl_60_def)

lemma copy_count_62:
  "occurrences copy_button (tmpl_62 @ rest) = occurrences copy_button rest"
  by (simp add: copy_button_def tmpl_62_def)

lemma copy_count_64:
  "occurrences copy_button (tmpl_64 @ rest) = occurrences copy_button rest"
  by (simp add: copy_button_def tmpl_64_def)

lemma copy_count_66:
  "occurrences copy_button (tmpl_66 @ rest) = occurrences copy_button rest"
  by (simp add: copy_button_def tmpl_66_def)

lemma copy_count_68:
  "occurrences copy_button (tmpl_68 @ rest) = occurrences copy_button rest"
  by (simp add: copy_button_def tmpl_68_def)

lemma copy_count_70:
  "occurrences copy_button (tmpl_70 @ rest) = occurrences copy_button rest"
  by (simp add: copy_button_def tmpl_70_def)

lemma copy_count_end:
  "occurrences copy_button tmpl_70 = 0"
  using copy_count_70 [of "[]"] by (simp add: copy_button_def)

lemmas copy_count =
  copy_count_escaped copy_count_end
  copy_count_0 copy_count_2 copy_count_4 copy_count_6 copy_count_8
  copy_count_14 copy_count_16 copy_count_18 copy_count_20 copy_count_22
  copy_count_24 copy_count_26 copy_count_28 copy_count_30 copy_count_32
  copy_count_34 copy_count_36 copy_count_38 copy_count_40 copy_count_42
  copy_count_44 copy_count_46 copy_count_48 copy_count_50 copy_count_52
  copy_count_54 copy_count_56 copy_count_58 copy_count_60 copy_count_62
  copy_count_64 copy_count_66 copy_count_68 copy_count_70

lemma restore_count_kind_header:
  "occurrences restore_button (kind_header ck e @ rest) = occurrences restore_button rest"
  by (simp add: kind_header_def restore_count)

lemma copy_count_kind_header:
  "occurrences copy_button (kind_header ck e @ rest) = occurrences copy_button rest"
  by (simp add: kind_header_def copy_count)

lemma restore_count_event:
  "occurrences restore_button (render_event fmt ck e @ rest) =
     (if Kind e = 3 then 1 else 0) + occurrences restore_button rest"
  by (simp add: render_event_def restore_count restore_count_kind_header)

lemma copy_count_event:
  "occurrences copy_button (render_event fmt ck e @ rest) = Suc (occurrences copy_button rest)"
  by (simp add: render_event_def copy_count copy_count_kind_header)

lemma restore_count_range:
  "occurrences restore_button (render_range fmt ck es @ rest) =
     length (filter (\<lambda>ev. Kind ev = 3) es) + occurrences restore_button rest"
  by (induction es arbitrary: ck) (simp_all add: restore_count_event)

lemma copy_count_range:
  "occurrences copy_button (render_range fmt ck es @ rest) =
     length es + occurrences copy_button rest"
  by (induction es arbitrary: ck) (simp_all add: copy_count_event)

lemma restore_count_header:
  "occurrences restore_button (render_profile_header urlf d @ rest) =
     occurrences restore_button rest"
  by (simp add: render_profile_header_def restore_count)

lemma copy_count_header:
  "occurrences copy_button (render_profile_header urlf d @ rest) = occurrences copy_button rest"
  by (simp add: render_profile_header_def copy_count)

lemma restore_count_page:
  "occurrences restore_button (render_page urlf fmt d) =
     length (filter (\<lambda>ev. Kind ev = 3) (Events d))"
  by (simp add: render_page_def render_events_def restore_count restore_count_header
      restore_count_range)

lemma copy_count_page:
  "occurrences copy_button (render_page urlf fmt d) = length (Events d)"
  by (simp add: render_page_def render_events_def copy_count copy_count_header
      copy_count_range)

lemma render_range_blocks:
  "render_range fmt ck es = concat (map2 (render_event fmt) (ck # map Kind es) es)"
proof (induction es arbitrary: ck)
  case Nil
  show ?case by simp
next
  case (Cons x xs)
  have "(if Kind x \<noteq> ck then Kind x else ck) = Kind x" by simp
  then have "render_range fmt ck (x # xs) = render_event fmt ck x @ render_range fmt (Kind x) xs"
    by simp
  also have "\<dots> = render_event fmt ck x
      @ concat (map2 (render_event fmt) (Kind x # map Kind xs) xs)"
    by (simp only: Cons.IH)
  finally show ?case by simp
qed

lemma event_block_in_range:
  "ev \<in> set es \<Longrightarrow> \<exists>c. sublist (render_event fmt c ev) (render_range fmt ck es)"
proof (induction es arbitrary: ck)
  case Nil
  then show ?case by simp
next
  case (Cons x xs)
  let ?ck = "if Kind x \<noteq> ck then Kind x else ck"
  show ?case
  proof (cases "ev = x")
    case True
    have "render_range fmt ck (x # xs) = [] @ render_event fmt ck ev @ render_range fmt ?ck xs"
      using True by simp
    then have "sublist (render_event fmt ck ev) (render_range fmt ck (x # xs))"
      unfolding sublist_def by blast
    then show ?thesis by blast
  next
    case False
    with Cons.prems have "ev \<in> set xs" by simp
    from Cons.IH [OF this, of ?ck] obtain c pre post where
      "render_range fmt ?ck xs = pre @ render_event fmt c ev @ post"
      unfolding sublist_def by blast
    then have "render_range fmt ck (x # xs)
        = (render_event fmt ck x @ pre) @ render_event fmt c ev @ post"
      by simp
    then have "sublist (render_event fmt c ev) (render_range fmt ck (x # xs))"
      unfolding sublist_def by blast
    then show ?thesis by blast
  qed
qed

lemma event_block_in_page:
  assumes "ev \<in> set (Events d)"
  shows "\<exists>c. sublist (render_event fmt c ev) (render_page urlf fmt d)"
proof -
  from assms have ne: "Events d \<noteq> []" by auto
  from event_block_in_range [OF assms, of fmt "- 1"] obtain c where
    c: "sublist (render_event fmt c ev) (render_range fmt (- 1) (Events d))"
    by blast
  define pre where "pre = render_profile_header urlf d
       @ tmpl_32 @ htmlEscaper (Itoa (int (length (Events d)))) @ tmpl_34 @ tmpl_36"
  define post where "post = tmpl_66 @ (if 0 < length (Events d) then tmpl_68 else []) @ tmpl_70"
  have "render_page urlf fmt d = pre @ render_range fmt (- 1) (Events d) @ post"
    unfolding render_page_def render_events_def pre_def post_def using ne by simp
  then have "sublist (render_range fmt (- 1) (Events d)) (render_page urlf fmt d)"
    unfolding sublist_def by blast
  with c have "sublist (render_event fmt c ev) (render_page urlf fmt d)"
    by (rule sublist_order.order.trans)
  then show ?thesis by blast
qed

text \<open>
  Claim C9. In the part of the page that the template produces for one event, whatever
  the value of \<^verbatim>\<open>$currentKind\<close> before it, the restore button occurs exactly when the
  category of the event is 3, and the copy button occurs always. The events part of a
  page is the sequence of these parts, one for each event in order, each entered with
  the category of the event before it. In the page as a whole, and so in the body of
  the handler's response for a request whose identifier decodes and whose query
  succeeds, every event has its part, the number of restore buttons is the number of
  events of category 3, and the number of copy buttons is the number of events.
\<close>

theorem C9_restore_iff_kind_3:
  "(sublist restore_button (render_event fmt ck e) \<longleftrightarrow> Kind e = 3) \<and>
   sublist copy_button (render_event fmt ck e) \<and>
   render_range fmt ck es = concat (map2 (render_event fmt) (ck # map Kind es) es) \<and>
   occurrences restore_button (render_page urlf fmt d)
     = length (filter (\<lambda>ev. Kind ev = 3) (Events d)) \<and>
   occurrences copy_button (render_page urlf fmt d) = length (Events d) \<and>
   (\<forall>ev \<in> set (Events d). \<exists>c. sublist (render_event fmt c ev) (render_page urlf fmt d)) \<and>
   (npubToHex (nip19_Decode en) (request_npub r) = Inr hexPubkey \<and>
    queryEventsByPubkey (db en) hexPubkey = Inr events \<longrightarrow>
      occurrences restore_button (body (snd (npubHandler en r)))
        = length (filter (\<lambda>ev. Kind ev = 3) events) \<and>
      occurrences copy_button (body (snd (npubHandler en r))) = length events \<and>
      (\<forall>ev \<in> set events.
         \<exists>c. sublist (render_event (time_Format en) c ev) (body (snd (npubHandler en r)))))"
proof -
  have one: "(sublist restore_button (render_event fmt ck e) \<longleftrightarrow> Kind e = 3) \<and>
      sublist copy_button (render_event fmt ck e)"
    using restore_button_needs_kind_3 restore_button_with_kind_3 copy_button_always by blast
  have page: "\<forall>ev \<in> set (Events d). \<exists>c. sublist (render_event fmt c ev) (render_page urlf fmt d)"
    using event_block_in_page by blast
  have handler: "occurrences restore_button (body (snd (npubHandler en r)))
        = length (filter (\<lambda>ev. Kind ev = 3) events) \<and>
      occurrences copy_button (body (snd (npubHandler en r))) = length events \<and>
      (\<forall>ev \<in> set events.
         \<exists>c. sublist (render_event (time_Format en) c ev) (body (snd (npubHandler en r))))"
    if h: "npubToHex (nip19_Decode en) (request_npub r) = Inr hexPubkey \<and>
      queryEventsByPubkey (db en) hexPubkey = Inr events"
  proof -
    from h handler_success [of en r hexPubkey events] obtain profile where
      resp: "snd (npubHandler en r) =
        \<lparr>status = 200,
         body = render_page (url_sanitize en) (time_Format en)
           \<lparr>Npub = request_npub r, HexPubkey = hexPubkey, Events = events,
            Profile = profile\<rparr>\<rparr>"
      by blast
    let ?d = "\<lparr>Npub = request_npub r, HexPubkey = hexPubkey, Events = events,
            Profile = profile\<rparr>"
    have b: "body (snd (npubHandler en r)) = render_page (url_sanitize en) (time_Format en) ?d"
      by (simp add: resp)
    have "\<forall>ev \<in> set (Events ?d). \<exists>c. sublist (render_event (time_Format en) c ev)
        (render_page (url_sanitize en) (time_Format en) ?d)"
      using event_block_in_page by blast
    then have "\<forall>ev \<in> set events. \<exists>c. sublist (render_event (time_Format en) c ev)
        (body (snd (npubHandler en r)))"
      by (simp add: b)
    moreover have "occurrences restore_button (body (snd (npubHandler en r)))
        = length (filter (\<lambda>ev. Kind ev = 3) events)"
      unfolding b by (simp add: restore_count_page)
    moreover have "occurrences copy_button (body (snd (npubHandler en r))) = length events"
      unfolding b by (simp add: copy_count_page)
    ultimately show ?thesis by blast
  qed
  from one render_range_blocks [of fmt ck es] restore_count_page [of urlf fmt d]
    copy_count_page [of urlf fmt d] page handler
  show ?thesis by blast
qed

theorem C9_witness:
  "npubToHex (nip19_Decode (sample_env db_ok net_down)) (request_npub req_path) = Inr alice_hex \<and>
   queryEventsByPubkey (db (sample_env db_ok net_down)) alice_hex
     = Inr [row_note_new, row_note_old, row_contacts] \<and>
   Kind row_note_new = 1 \<and> Kind row_note_old = 1 \<and> Kind row_contacts = 3 \<and>
   occurrences restore_button (body (snd (npubHandler (sample_env db_ok net_down) req_path))) = 1 \<and>
   occurrences copy_button (body (snd (npubHandler (sample_env db_ok net_down) req_path))) = 3 \<and>
   sublist restore_button (render_event sample_Format 1 row_contacts) \<and>
   sublist copy_button (render_event sample_Format 1 row_contacts) \<and>
   \<not> sublist restore_button (render_event sample_Format (- 1) row_note_new) \<and>
   sublist copy_button (render_event sample_Format (- 1) row_note_new)"
proof -
  let ?en = "sample_env db_ok net_down"
  let ?es = "[row_note_new, row_note_old, row_contacts]"
  have h1: "npubToHex (nip19_Decode ?en) (request_npub req_path) = Inr alice_hex"
    by (simp add: npubToHex_def sample_env_def sample_Decode_def request_npub_def req_path_def
        TrimPrefix_def alice_npub_def)
  have h2: "queryEventsByPubkey (db ?en) alice_hex = Inr ?es"
    by (simp add: queryEventsByPubkey_def db_Query_def sample_env_def db_ok_def
        sample_table_def select_by_pubkey_def order_key_def row_note_old_def row_contacts_def
        row_other_def row_note_new_def alice_hex_def less_eq_prod_def)
  have k: "Kind row_note_new = 1" "Kind row_note_old = 1" "Kind row_contacts = 3"
    by (simp_all add: row_note_new_def row_note_old_def row_contacts_def)
  note t = C9_restore_iff_kind_3 [of sample_Format 1 row_contacts "[]" "\<lambda>s. s" plain_page
      ?en req_path alice_hex ?es]
  note t' = C9_restore_iff_kind_3 [of sample_Format "- 1" row_note_new "[]" "\<lambda>s. s" plain_page
      ?en req_path alice_hex ?es]
  from t h1 h2 have "occurrences restore_button (body (snd (npubHandler ?en req_path)))
      = length (filter (\<lambda>ev. Kind ev = 3) ?es)"
    by blast
  then have c1: "occurrences restore_button (body (snd (npubHandler ?en req_path))) = 1"
    by (simp add: k)
  from t h1 h2 have "occurrences copy_button (body (snd (npubHandler ?en req_path)))
      = length ?es"
    by blast
  then have c2: "occurrences copy_button (body (snd (npubHandler ?en req_path))) = 3"
    by simp
  from t k have b1: "sublist restore_button (render_event sample_Format 1 row_contacts) \<and>
      sublist copy_button (render_event sample_Format 1 row_contacts)"
    by blast
  from t' k have b2: "\<not> sublist restore_button (render_event sample_Format (- 1) row_note_new) \<and>
      sublist copy_button (render_event sample_Format (- 1) row_note_new)"
    by simp
  from h1 h2 k c1 c2 b1 b2 show ?thesis by blast
qed

end
